theory Spec2Isabelle
  imports Complex_Main "HOL-Library.Monad_Syntax"
begin

section \<open>Tensors\<close>

text \<open>
  The networks of \<^verbatim>\<open>model.py\<close> work on rank-4 tensors (batch, channel, height,
  width) of floating-point numbers. A tensor is its shape together with its elements,
  addressed by four indices. An element is a finite number, an infinity or NaN. Finite
  values are real numbers: rounding is not modelled (it maps a result into the same
  closed interval between representable bounds), the special values are.
\<close>

datatype fl = NaN | NegInf | PosInf | Fin real

type_synonym shape = "nat \<times> nat \<times> nat \<times> nat"

type_synonym data = "nat \<Rightarrow> nat \<Rightarrow> nat \<Rightarrow> nat \<Rightarrow> fl"

record tensor =
  dims :: shape
  elem :: data

definition channels :: "tensor \<Rightarrow> nat" where
  "channels x = (case dims x of (n, c, h, w) \<Rightarrow> c)"

definition height :: "tensor \<Rightarrow> nat" where
  "height x = (case dims x of (n, c, h, w) \<Rightarrow> h)"

definition width :: "tensor \<Rightarrow> nat" where
  "width x = (case dims x of (n, c, h, w) \<Rightarrow> w)"

definition full :: "shape \<Rightarrow> fl \<Rightarrow> tensor" where
  "full s v = \<lparr>dims = s, elem = (\<lambda>n c i j. v)\<rparr>"

definition zeros :: "shape \<Rightarrow> tensor" where
  "zeros s = full s (Fin 0)"

text \<open>
  \<^verbatim>\<open>torch.cat([a, b], dim=1)\<close>: the two tensors must agree in every dimension but
  the channel one, otherwise the call raises.
\<close>

definition cat1 :: "tensor \<Rightarrow> tensor \<Rightarrow> tensor option" where
  "cat1 a b =
     (case dims a of (n, c, h, w) \<Rightarrow>
      case dims b of (n', c', h', w') \<Rightarrow>
        if n = n' \<and> h = h' \<and> w = w'
        then Some \<lparr>dims = (n, c + c', h, w),
                   elem = (\<lambda>m k i j. if k < c then elem a m k i j else elem b m (k - c) i j)\<rparr>
        else None)"

text \<open>
  \<^verbatim>\<open>a + b\<close> on tensors, with the library's broadcasting: two sizes are compatible
  when they are equal or one of them is 1, and a dimension of size 1 is read at index 0.
\<close>

text \<open>
  Floating-point addition: NaN is absorbing, and opposite infinities give NaN. A finite
  sum is not rounded, so that its overflow to an infinity is not modelled; no theorem
  below depends on the value of a sum.
\<close>

fun fl_add :: "fl \<Rightarrow> fl \<Rightarrow> fl" where
  "fl_add NaN b = NaN"
| "fl_add a NaN = NaN"
| "fl_add PosInf NegInf = NaN"
| "fl_add NegInf PosInf = NaN"
| "fl_add PosInf b = PosInf"
| "fl_add a PosInf = PosInf"
| "fl_add NegInf b = NegInf"
| "fl_add a NegInf = NegInf"
| "fl_add (Fin a) (Fin b) = Fin (a + b)"

definition bdim :: "nat \<Rightarrow> nat \<Rightarrow> nat option" where
  "bdim a b = (if a = b then Some a else if a = 1 then Some b else if b = 1 then Some a else None)"

definition bidx :: "nat \<Rightarrow> nat \<Rightarrow> nat" where
  "bidx d i = (if d = 1 then 0 else i)"

definition add :: "tensor \<Rightarrow> tensor \<Rightarrow> tensor option" where
  "add a b =
     (case dims a of (n, c, h, w) \<Rightarrow>
      case dims b of (n', c', h', w') \<Rightarrow>
      (case (bdim n n', bdim c c', bdim h h', bdim w w') of
         (Some rn, Some rc, Some rh, Some rw) \<Rightarrow>
           Some \<lparr>dims = (rn, rc, rh, rw),
                 elem = (\<lambda>m k i j. fl_add (elem a (bidx n m) (bidx c k) (bidx h i) (bidx w j))
                                         (elem b (bidx n' m) (bidx c' k) (bidx h' i) (bidx w' j)))\<rparr>
       | _ \<Rightarrow> None))"

section \<open>The layers of the tensor library\<close>

text \<open>
  The constructors carry the arguments that \<^verbatim>\<open>model.py\<close> passes, with the library's
  defaults written out (stride 1, padding 0, dilation 1):
  \<^item> \<open>Conv2d in out kernel_size stride padding dilation\<close>;
  \<^item> \<open>ConvTranspose2d in out kernel_size stride padding output_padding\<close>;
  \<^item> \<open>BatchNorm2d num_features\<close>;
  \<^item> \<open>LeakyReLU\<close> (negative slope 0.01), \<open>Sigmoid\<close>, \<open>Tanh\<close>;
  \<^item> \<open>Sequential\<close> of a list of modules, run in order;
  \<^item> \<open>SpectralNorm\<close> around a module.
\<close>

datatype layer =
    Conv2d nat nat nat nat nat nat
  | ConvTranspose2d nat nat nat nat nat nat
  | BatchNorm2d nat
  | LeakyReLU
  | Sigmoid
  | Tanh
  | Sequential "layer list"
  | SpectralNorm layer

text \<open>
  Output size of a convolution along one axis, as the library documents it:
  \<open>\<lfloor>(size + 2 * padding - dilation * (kernel - 1) - 1) / stride\<rfloor> + 1\<close>. The library
  raises when the stride or the dilation is not positive, and when the padded input is
  smaller than the dilated kernel.
\<close>

definition conv_out :: "nat \<Rightarrow> nat \<Rightarrow> nat \<Rightarrow> nat \<Rightarrow> nat \<Rightarrow> nat option" where
  "conv_out k s p d sz =
     (if s = 0 \<or> d = 0 \<or> sz + 2 * p < d * (k - 1) + 1 then None
      else Some ((sz + 2 * p - d * (k - 1) - 1) div s + 1))"

text \<open>
  Output size of a transposed convolution (dilation 1) along one axis:
  \<open>(size - 1) * stride - 2 * padding + (kernel - 1) + output_padding + 1\<close>. The
  library raises when the output padding is not smaller than the stride (or the
  dilation), and when the input or the output would be empty.
\<close>

definition deconv_out :: "nat \<Rightarrow> nat \<Rightarrow> nat \<Rightarrow> nat \<Rightarrow> nat \<Rightarrow> nat option" where
  "deconv_out k s p op sz =
     (if s = 0 \<or> max s 1 \<le> op \<or> sz = 0 \<or> (sz - 1) * s + (k - 1) + op + 1 \<le> 2 * p then None
      else Some ((sz - 1) * s + (k - 1) + op + 1 - 2 * p))"

text \<open>
  A convolution raises when the input does not have \<open>in_channels\<close> channels, and when
  its weight has no output channel. With no input channel it returns a map without
  channels, which a layer that expects channels then rejects.
\<close>

definition conv_shape :: "nat \<Rightarrow> nat \<Rightarrow> nat \<Rightarrow> nat \<Rightarrow> nat \<Rightarrow> nat \<Rightarrow> shape \<Rightarrow> shape option" where
  "conv_shape ci co k s p d sh =
     (case sh of (n, c, h, w) \<Rightarrow>
        if c \<noteq> ci \<or> co = 0 then None
        else (case (conv_out k s p d h, conv_out k s p d w) of
                (Some h', Some w') \<Rightarrow> Some (n, if ci = 0 then 0 else co, h', w')
              | _ \<Rightarrow> None))"

definition deconv_shape :: "nat \<Rightarrow> nat \<Rightarrow> nat \<Rightarrow> nat \<Rightarrow> nat \<Rightarrow> nat \<Rightarrow> shape \<Rightarrow> shape option" where
  "deconv_shape ci co k s p op sh =
     (case sh of (n, c, h, w) \<Rightarrow>
        if c \<noteq> ci \<or> co = 0 then None
        else (case (deconv_out k s p op h, deconv_out k s p op w) of
                (Some h', Some w') \<Rightarrow> Some (n, if ci = 0 then 0 else co, h', w')
              | _ \<Rightarrow> None))"

text \<open>
  Batch normalisation keeps the shape. It raises when the channel count is not
  \<open>num_features\<close>, and, in training mode, when a channel holds a single value
  (batch * height * width = 1): the library refuses to compute batch statistics with
  \<^verbatim>\<open>ValueError: Expected more than 1 value per channel when training\<close>. In
  evaluation mode the running statistics are used and there is no such check. A module is
  in training mode when it has just been constructed.
\<close>

definition bn_ok :: "bool \<Rightarrow> nat \<Rightarrow> nat \<Rightarrow> nat \<Rightarrow> bool" where
  "bn_ok tr n h w = (\<not> (tr \<and> n * h * w = 1))"

definition bn_shape :: "bool \<Rightarrow> nat \<Rightarrow> shape \<Rightarrow> shape option" where
  "bn_shape tr f sh =
     (case sh of (n, c, h, w) \<Rightarrow> if c = f \<and> bn_ok tr n h w then Some sh else None)"

text \<open>
  The activations, element by element. Each of them returns NaN on NaN. At the infinities
  the leaky rectification (negative slope 0.01) keeps the infinity, the sigmoid takes its
  limits 0 and 1, the hyperbolic tangent its limits -1 and 1.
\<close>

fun leaky_relu :: "fl \<Rightarrow> fl" where
  "leaky_relu NaN = NaN"
| "leaky_relu NegInf = NegInf"
| "leaky_relu PosInf = PosInf"
| "leaky_relu (Fin v) = Fin (if 0 \<le> v then v else v / 100)"

fun sigmoid :: "fl \<Rightarrow> fl" where
  "sigmoid NaN = NaN"
| "sigmoid NegInf = Fin 0"
| "sigmoid PosInf = Fin 1"
| "sigmoid (Fin v) = Fin (1 / (1 + exp (- v)))"

fun tanh_fl :: "fl \<Rightarrow> fl" where
  "tanh_fl NaN = NaN"
| "tanh_fl NegInf = Fin (- 1)"
| "tanh_fl PosInf = Fin 1"
| "tanh_fl (Fin v) = Fin (tanh v)"

definition pointwise :: "(fl \<Rightarrow> fl) \<Rightarrow> tensor \<Rightarrow> tensor" where
  "pointwise f x = \<lparr>dims = dims x, elem = (\<lambda>n c i j. f (elem x n c i j))\<rparr>"

text \<open>
  The learned layers (convolutions, normalisations) compute their elements from
  parameters that \<^verbatim>\<open>model.py\<close> never reads: the library creates them and the
  optimiser changes them. The run-time state of a module is therefore a parameter of the
  model: whether it is in training mode, and, for the learned layer at each position of
  the module tree (the list of child indices from the root, as in the keys of a state
  dictionary), the function from its input to the elements of its output.
\<close>

record runtime =
  training :: bool
  kernel :: "nat list \<Rightarrow> tensor \<Rightarrow> data"

definition sub :: "nat \<Rightarrow> runtime \<Rightarrow> runtime" where
  "sub i rt = rt\<lparr>kernel := (\<lambda>p. kernel rt (i # p))\<rparr>"

text \<open>
  Two run-time states for concrete runs. In \<open>const_runtime tr v\<close> every learned layer
  returns the finite value \<open>v\<close> at every position, as a convolution with zero weights and
  bias \<open>v\<close> does on finite data, or a normalisation with scale 0 and shift \<open>v\<close>. In
  \<open>nan_runtime tr\<close> the learned layers have zero weights and biases and follow the
  floating-point rule \<open>0 * NaN = NaN\<close>, on tensors that hold NaN everywhere or nowhere:
  the output is NaN everywhere when the input is, and 0 otherwise.
\<close>

definition const_runtime :: "bool \<Rightarrow> real \<Rightarrow> runtime" where
  "const_runtime tr v = \<lparr>training = tr, kernel = (\<lambda>p x n c i j. Fin v)\<rparr>"

definition nan_runtime :: "bool \<Rightarrow> runtime" where
  "nan_runtime tr =
     \<lparr>training = tr, kernel = (\<lambda>p x n c i j. if elem x 0 0 0 0 = NaN then NaN else Fin 0)\<rparr>"

definition learned :: "runtime \<Rightarrow> shape option \<Rightarrow> tensor \<Rightarrow> tensor option" where
  "learned rt sh x = (case sh of None \<Rightarrow> None | Some s \<Rightarrow> Some \<lparr>dims = s, elem = kernel rt [] x\<rparr>)"

fun forward :: "runtime \<Rightarrow> layer \<Rightarrow> tensor \<Rightarrow> tensor option"
  and forward_seq :: "runtime \<Rightarrow> nat \<Rightarrow> layer list \<Rightarrow> tensor \<Rightarrow> tensor option" where
  "forward rt (Conv2d ci co k s p d) x = learned rt (conv_shape ci co k s p d (dims x)) x"
| "forward rt (ConvTranspose2d ci co k s p op) x = learned rt (deconv_shape ci co k s p op (dims x)) x"
| "forward rt (BatchNorm2d f) x = learned rt (bn_shape (training rt) f (dims x)) x"
| "forward rt LeakyReLU x = Some (pointwise leaky_relu x)"
| "forward rt Sigmoid x = Some (pointwise sigmoid x)"
| "forward rt Tanh x = Some (pointwise tanh_fl x)"
| "forward rt (Sequential ms) x = forward_seq rt 0 ms x"
| "forward rt (SpectralNorm m) x = forward (sub 0 rt) m x"
| "forward_seq rt i [] x = Some x"
| "forward_seq rt i (m # ms) x =
     (case forward (sub i rt) m x of None \<Rightarrow> None | Some y \<Rightarrow> forward_seq rt (Suc i) ms y)"


section \<open>The modules of model.py\<close>

text \<open>
  Each class of \<^verbatim>\<open>model.py\<close> is a record of its sub-modules, in the order in which
  \<^verbatim>\<open>__init__\<close> registers them (the position of a field is its child index), built by
  a function with the name of the class, and a \<open>_forward\<close> function that follows the
  \<^verbatim>\<open>forward\<close> method. A raise anywhere (a shape the library rejects, an index out of
  range) is the result \<open>None\<close>.
\<close>

subsection \<open>Residual and ResNet\<close>

record Residual =
  r_conv :: layer
  r_bn :: layer

definition Residual :: "nat \<Rightarrow> Residual" where
  "Residual in_dim =
     (let temp_channels = in_dim div 4 in
      \<lparr>r_conv = Sequential [Conv2d in_dim temp_channels 1 1 0 1,
                            LeakyReLU,
                            Conv2d temp_channels temp_channels 3 1 1 1,
                            LeakyReLU,
                            Conv2d temp_channels in_dim 1 1 0 1],
       r_bn = BatchNorm2d in_dim\<rparr>)"

definition Residual_forward :: "runtime \<Rightarrow> Residual \<Rightarrow> tensor \<Rightarrow> tensor option" where
  "Residual_forward rt m x =
     do { c \<leftarrow> forward (sub 0 rt) (r_conv m) x;
          out \<leftarrow> add c x;
          b \<leftarrow> forward (sub 1 rt) (r_bn m) out;
          Some (pointwise leaky_relu b) }"

record ResNet =
  rn_layer :: "Residual list"

definition ResNet :: "nat \<Rightarrow> ResNet" where
  "ResNet in_dim =
     \<lparr>rn_layer = [Residual in_dim, Residual in_dim, Residual in_dim, Residual in_dim]\<rparr>"

fun Residual_seq :: "runtime \<Rightarrow> nat \<Rightarrow> Residual list \<Rightarrow> tensor \<Rightarrow> tensor option" where
  "Residual_seq rt i [] x = Some x"
| "Residual_seq rt i (m # ms) x =
     do { y \<leftarrow> Residual_forward (sub i rt) m x; Residual_seq rt (Suc i) ms y }"

definition ResNet_forward :: "runtime \<Rightarrow> ResNet \<Rightarrow> tensor \<Rightarrow> tensor option" where
  "ResNet_forward rt m x = Residual_seq (sub 0 rt) 0 (rn_layer m) x"

subsection \<open>The convolution blocks\<close>

definition conv_bn_relu :: "nat \<Rightarrow> nat \<Rightarrow> layer" where
  "conv_bn_relu in_channels out_channels =
     Sequential [Conv2d in_channels out_channels 3 1 1 1,
                 BatchNorm2d out_channels,
                 LeakyReLU]"

definition dilated_conv :: "nat \<Rightarrow> nat \<Rightarrow> nat \<Rightarrow> layer" where
  "dilated_conv in_dim padding dilation =
     Sequential [Conv2d in_dim in_dim 3 1 padding dilation,
                 BatchNorm2d in_dim,
                 LeakyReLU]"

subsection \<open>EncoderNet and DecoderNet\<close>

text \<open>
  With \<^verbatim>\<open>get_feature_map\<close> the two \<^verbatim>\<open>forward\<close> methods return a tensor and a list
  of feature maps, without it a tensor alone.
\<close>

datatype result = Out tensor | OutFeatures tensor "tensor list"

fun plain :: "result option \<Rightarrow> tensor option" where
  "plain (Some (Out t)) = Some t"
| "plain _ = None"

record EncoderNet =
  e_l1 :: layer
  e_l2 :: layer
  e_l3 :: layer
  e_l4 :: layer

definition EncoderNet :: "nat \<Rightarrow> EncoderNet" where
  "EncoderNet in_dim =
     \<lparr>e_l1 = Sequential [conv_bn_relu in_dim 32, conv_bn_relu 32 32],
      e_l2 = Sequential [Conv2d 32 64 3 2 1 1, LeakyReLU, conv_bn_relu 64 64, conv_bn_relu 64 64],
      e_l3 = Sequential [Conv2d 64 128 3 2 1 1, LeakyReLU, conv_bn_relu 128 128, conv_bn_relu 128 128],
      e_l4 = Sequential [Conv2d 128 256 3 2 1 1, LeakyReLU, conv_bn_relu 256 256, conv_bn_relu 256 256]\<rparr>"

definition EncoderNet_forward :: "runtime \<Rightarrow> EncoderNet \<Rightarrow> tensor \<Rightarrow> bool \<Rightarrow> result option" where
  "EncoderNet_forward rt m x get_feature_map =
     do { out \<leftarrow> forward (sub 0 rt) (e_l1 m) x;
          out \<leftarrow> forward (sub 1 rt) (e_l2 m) out;
          let f1 = out;
          out \<leftarrow> forward (sub 2 rt) (e_l3 m) out;
          let f2 = out;
          out \<leftarrow> forward (sub 3 rt) (e_l4 m) out;
          if get_feature_map then Some (OutFeatures out [f2, f1]) else Some (Out out) }"

record DecoderNet =
  d_conv1 :: layer
  d_deconv1 :: layer
  d_conv2 :: layer
  d_deconv2 :: layer
  d_conv3 :: layer
  d_deconv3 :: layer
  d_conv4 :: layer

text \<open>
  \<^verbatim>\<open>feature_map_channels\<close> is \<^verbatim>\<open>None\<close> or a list that the constructor unpacks into
  exactly three widths.
\<close>

definition DecoderNet :: "nat \<Rightarrow> (nat \<times> nat \<times> nat) option \<Rightarrow> DecoderNet" where
  "DecoderNet in_dim feature_map_channels =
     (case (case feature_map_channels of None \<Rightarrow> (0, 0, 0) | Some t \<Rightarrow> t) of (f1, f2, f3) \<Rightarrow>
      \<lparr>d_conv1 = Sequential [conv_bn_relu (in_dim + f1) 256, conv_bn_relu 256 256],
       d_deconv1 = Sequential [ConvTranspose2d 256 128 3 2 1 1, LeakyReLU],
       d_conv2 = Sequential [conv_bn_relu (128 + f2) 128, conv_bn_relu 128 128],
       d_deconv2 = Sequential [ConvTranspose2d 128 64 3 2 1 1, LeakyReLU],
       d_conv3 = Sequential [conv_bn_relu (64 + f3) 64, conv_bn_relu 64 64],
       d_deconv3 = Sequential [ConvTranspose2d 64 32 3 2 1 1, LeakyReLU],
       d_conv4 = Sequential [conv_bn_relu 32 32, conv_bn_relu 32 32]\<rparr>)"

text \<open>
  \<^verbatim>\<open>if fuse and fuse[i] is not None: x = torch.cat([x, fuse[i]], dim=1)\<close>. The skip
  list is \<^verbatim>\<open>None\<close> or a list whose entries are \<^verbatim>\<open>None\<close> or tensors. An empty list
  is false, so it is never indexed; a non-empty list shorter than \<open>i + 1\<close> raises.
\<close>

definition cat_skip :: "tensor \<Rightarrow> tensor option list option \<Rightarrow> nat \<Rightarrow> tensor option" where
  "cat_skip x fuse i =
     (case fuse of
        None \<Rightarrow> Some x
      | Some l \<Rightarrow>
          if l = [] then Some x
          else if length l \<le> i then None
          else (case l ! i of None \<Rightarrow> Some x | Some t \<Rightarrow> cat1 x t))"

definition DecoderNet_forward ::
  "runtime \<Rightarrow> DecoderNet \<Rightarrow> tensor \<Rightarrow> tensor option list option \<Rightarrow> bool \<Rightarrow> result option" where
  "DecoderNet_forward rt m x fuse get_feature_map =
     do { x \<leftarrow> cat_skip x fuse 0;
          out \<leftarrow> forward (sub 0 rt) (d_conv1 m) x;
          let f1 = out;
          out \<leftarrow> forward (sub 1 rt) (d_deconv1 m) out;
          out \<leftarrow> cat_skip out fuse 1;
          out \<leftarrow> forward (sub 2 rt) (d_conv2 m) out;
          let f2 = out;
          out \<leftarrow> forward (sub 3 rt) (d_deconv2 m) out;
          out \<leftarrow> cat_skip out fuse 2;
          out \<leftarrow> forward (sub 4 rt) (d_conv3 m) out;
          let f3 = out;
          out \<leftarrow> forward (sub 5 rt) (d_deconv3 m) out;
          out \<leftarrow> forward (sub 6 rt) (d_conv4 m) out;
          if get_feature_map then Some (OutFeatures out [f1, f2, f3]) else Some (Out out) }"


subsection \<open>TextConversionNet\<close>

text \<open>
  \<^verbatim>\<open>t_encoder\<close> and \<^verbatim>\<open>s_encoder\<close> are \<^verbatim>\<open>nn.Sequential(EncoderNet, ResNet)\<close>, and
  \<^verbatim>\<open>sk_decoder\<close> is \<^verbatim>\<open>nn.Sequential(DecoderNet, Conv2d, Sigmoid)\<close>: a sequential
  container calls each member with the previous output as its only argument, so the
  encoder and the decoder run with their default arguments.
\<close>

record TextConversionNet =
  t_encoder :: "EncoderNet \<times> ResNet"
  s_encoder :: "EncoderNet \<times> ResNet"
  sk_decoder :: "DecoderNet \<times> layer \<times> layer"
  t_decoder :: DecoderNet
  t_conv :: layer
  t_last :: layer

definition TextConversionNet :: "nat \<Rightarrow> TextConversionNet" where
  "TextConversionNet in_dim =
     \<lparr>t_encoder = (EncoderNet in_dim, ResNet 256),
      s_encoder = (EncoderNet in_dim, ResNet 256),
      sk_decoder = (DecoderNet (2 * 256) None, Conv2d 32 1 3 1 1 1, Sigmoid),
      t_decoder = DecoderNet (2 * 256) None,
      t_conv = conv_bn_relu (32 + 1) (32 + 1),
      t_last = Sequential [Conv2d (32 + 1) 3 3 1 1 1, Tanh]\<rparr>"

definition encoder_resnet :: "runtime \<Rightarrow> EncoderNet \<times> ResNet \<Rightarrow> tensor \<Rightarrow> tensor option" where
  "encoder_resnet rt m x =
     do { out \<leftarrow> plain (EncoderNet_forward (sub 0 rt) (fst m) x False);
          ResNet_forward (sub 1 rt) (snd m) out }"

definition decoder_head :: "runtime \<Rightarrow> DecoderNet \<times> layer \<times> layer \<Rightarrow> tensor \<Rightarrow> tensor option" where
  "decoder_head rt m x =
     do { out \<leftarrow> plain (DecoderNet_forward (sub 0 rt) (fst m) x None False);
          out \<leftarrow> forward (sub 1 rt) (fst (snd m)) out;
          forward (sub 2 rt) (snd (snd m)) out }"

definition TextConversionNet_forward ::
  "runtime \<Rightarrow> TextConversionNet \<Rightarrow> tensor \<Rightarrow> tensor \<Rightarrow> (tensor \<times> tensor) option" where
  "TextConversionNet_forward rt m x_t x_s =
     do { out_t \<leftarrow> encoder_resnet (sub 0 rt) (t_encoder m) x_t;
          out_s \<leftarrow> encoder_resnet (sub 1 rt) (s_encoder m) x_s;
          out \<leftarrow> cat1 out_t out_s;
          out_sk \<leftarrow> decoder_head (sub 2 rt) (sk_decoder m) out;
          out_t \<leftarrow> plain (DecoderNet_forward (sub 3 rt) (t_decoder m) out None False);
          out_t \<leftarrow> cat1 out_sk out_t;
          out_t \<leftarrow> forward (sub 4 rt) (t_conv m) out_t;
          l \<leftarrow> forward (sub 5 rt) (t_last m) out_t;
          Some (out_sk, l) }"

subsection \<open>BackgroundInpaintingNet and FusionNet\<close>

record BackgroundInpaintingNet =
  b_encoder :: EncoderNet
  b_resnet :: ResNet
  b_decoder :: DecoderNet
  b_last :: layer

definition BackgroundInpaintingNet :: "nat \<Rightarrow> BackgroundInpaintingNet" where
  "BackgroundInpaintingNet in_dim =
     \<lparr>b_encoder = EncoderNet in_dim,
      b_resnet = ResNet 256,
      b_decoder = DecoderNet 256 (Some (0, 128, 64)),
      b_last = Sequential [Conv2d 32 3 3 1 1 1, Tanh]\<rparr>"

definition BackgroundInpaintingNet_forward ::
  "runtime \<Rightarrow> BackgroundInpaintingNet \<Rightarrow> tensor \<Rightarrow> (tensor \<times> tensor list) option" where
  "BackgroundInpaintingNet_forward rt m x =
     (case EncoderNet_forward (sub 0 rt) (b_encoder m) x True of
        Some (OutFeatures out f_encoder) \<Rightarrow>
          do { out \<leftarrow> ResNet_forward (sub 1 rt) (b_resnet m) out;
               (case DecoderNet_forward (sub 2 rt) (b_decoder m) out
                       (Some ([None] @ map Some f_encoder)) True of
                  Some (OutFeatures out fuse) \<Rightarrow>
                    do { l \<leftarrow> forward (sub 3 rt) (b_last m) out; Some (l, fuse) }
                | _ \<Rightarrow> None) }
      | _ \<Rightarrow> None)"

record FusionNet =
  f_encoder :: EncoderNet
  f_resnet :: ResNet
  f_decoder :: DecoderNet
  f_last :: layer

definition FusionNet :: "nat \<Rightarrow> FusionNet" where
  "FusionNet in_dim =
     \<lparr>f_encoder = EncoderNet in_dim,
      f_resnet = ResNet 256,
      f_decoder = DecoderNet 256 (Some (256, 128, 64)),
      f_last = Sequential [Conv2d 32 3 3 1 1 1, Tanh]\<rparr>"

definition FusionNet_forward ::
  "runtime \<Rightarrow> FusionNet \<Rightarrow> tensor \<Rightarrow> tensor option list option \<Rightarrow> tensor option" where
  "FusionNet_forward rt m x fuse =
     do { out \<leftarrow> plain (EncoderNet_forward (sub 0 rt) (f_encoder m) x False);
          out \<leftarrow> ResNet_forward (sub 1 rt) (f_resnet m) out;
          out \<leftarrow> plain (DecoderNet_forward (sub 2 rt) (f_decoder m) out fuse False);
          forward (sub 3 rt) (f_last m) out }"

subsection \<open>Generator\<close>

record Generator =
  text_conversion_net :: TextConversionNet
  background_inpainting_net :: BackgroundInpaintingNet
  fusion_net :: FusionNet

definition Generator :: "nat \<Rightarrow> Generator" where
  "Generator in_dim =
     \<lparr>text_conversion_net = TextConversionNet in_dim,
      background_inpainting_net = BackgroundInpaintingNet in_dim,
      fusion_net = FusionNet in_dim\<rparr>"

definition Generator_forward ::
  "runtime \<Rightarrow> Generator \<Rightarrow> tensor \<times> tensor \<Rightarrow> (tensor \<times> tensor \<times> tensor \<times> tensor) option" where
  "Generator_forward rt m inputs =
     (case inputs of (i_t, i_s) \<Rightarrow>
      do { (o_sk, o_t) \<leftarrow> TextConversionNet_forward (sub 0 rt) (text_conversion_net m) i_t i_s;
           (o_b, fuse) \<leftarrow> BackgroundInpaintingNet_forward (sub 1 rt) (background_inpainting_net m) i_s;
           o_f \<leftarrow> FusionNet_forward (sub 2 rt) (fusion_net m) o_t (Some (map Some fuse));
           Some (o_sk, o_t, o_b, o_f) })"

subsection \<open>The discriminators\<close>

record Discriminator =
  conv1 :: layer
  conv2 :: layer
  conv3 :: layer
  conv4 :: layer
  conv5 :: layer

definition Discriminator :: "nat \<Rightarrow> Discriminator" where
  "Discriminator in_dim =
     \<lparr>conv1 = Sequential [Conv2d in_dim 64 3 2 1 1, BatchNorm2d 64, LeakyReLU],
      conv2 = Sequential [Conv2d 64 128 3 2 1 1, BatchNorm2d 128, LeakyReLU],
      conv3 = Sequential [Conv2d 128 256 3 2 1 1, BatchNorm2d 256, LeakyReLU],
      conv4 = Sequential [Conv2d 256 512 3 2 1 1, BatchNorm2d 512, LeakyReLU],
      conv5 = Sequential [Conv2d 512 1 3 1 1 1, BatchNorm2d 1, Sigmoid]\<rparr>"

definition Discriminator_forward :: "runtime \<Rightarrow> Discriminator \<Rightarrow> tensor \<Rightarrow> tensor option" where
  "Discriminator_forward rt m x =
     do { out \<leftarrow> forward (sub 0 rt) (conv1 m) x;
          out \<leftarrow> forward (sub 1 rt) (conv2 m) out;
          out \<leftarrow> forward (sub 2 rt) (conv3 m) out;
          out \<leftarrow> forward (sub 3 rt) (conv4 m) out;
          forward (sub 4 rt) (conv5 m) out }"

text \<open>
  Modelled from the spec: \<^verbatim>\<open>SpectralNorm\<close> comes from the module \<^verbatim>\<open>spectral_norm\<close>,
  which is not among the sources. The specification describes it as a rescaling of the
  weights of the layer it wraps; the constructor \<open>SpectralNorm\<close> of \<open>layer\<close> therefore
  runs the wrapped layer, as its child, on the input.
\<close>

record SNDiscriminator =
  sn_conv1 :: layer
  sn_conv2 :: layer
  sn_conv3 :: layer
  sn_conv4 :: layer
  sn_conv5 :: layer

definition SNDiscriminator :: "nat \<Rightarrow> SNDiscriminator" where
  "SNDiscriminator in_dim =
     \<lparr>sn_conv1 = Sequential [SpectralNorm (Conv2d in_dim 64 3 2 1 1), LeakyReLU],
      sn_conv2 = Sequential [SpectralNorm (Conv2d 64 128 3 2 1 1), LeakyReLU],
      sn_conv3 = Sequential [SpectralNorm (Conv2d 128 256 3 2 1 1), LeakyReLU],
      sn_conv4 = Sequential [SpectralNorm (Conv2d 256 512 3 2 1 1), LeakyReLU],
      sn_conv5 = Sequential [Conv2d 512 1 3 1 1 1]\<rparr>"

definition SNDiscriminator_forward :: "runtime \<Rightarrow> SNDiscriminator \<Rightarrow> tensor \<Rightarrow> tensor option" where
  "SNDiscriminator_forward rt m x =
     do { out \<leftarrow> forward (sub 0 rt) (sn_conv1 m) x;
          out \<leftarrow> forward (sub 1 rt) (sn_conv2 m) out;
          out \<leftarrow> forward (sub 2 rt) (sn_conv3 m) out;
          out \<leftarrow> forward (sub 3 rt) (sn_conv4 m) out;
          forward (sub 4 rt) (sn_conv5 m) out }"

record DiscriminatorMixed =
  D1 :: Discriminator
  D2 :: Discriminator

definition DiscriminatorMixed :: "nat \<Rightarrow> nat \<Rightarrow> DiscriminatorMixed" where
  "DiscriminatorMixed in_dim1 in_dim2 = \<lparr>D1 = Discriminator in_dim1, D2 = Discriminator in_dim2\<rparr>"

definition DiscriminatorMixed_forward ::
  "runtime \<Rightarrow> DiscriminatorMixed \<Rightarrow> tensor \<times> tensor \<Rightarrow> (tensor \<times> tensor) option" where
  "DiscriminatorMixed_forward rt m inputs =
     (case inputs of (x1, x2) \<Rightarrow>
      do { o1 \<leftarrow> Discriminator_forward (sub 0 rt) (D1 m) x1;
           o2 \<leftarrow> Discriminator_forward (sub 1 rt) (D2 m) x2;
           Some (o1, o2) })"


section \<open>Reading the structure of a module\<close>

text \<open>
  The members of a sequential container, the stride and the channel counts of a
  convolution, and whether a layer is a normalisation.
\<close>

fun children :: "layer \<Rightarrow> layer list" where
  "children (Sequential ms) = ms"
| "children _ = []"

fun conv_stride :: "layer \<Rightarrow> nat option" where
  "conv_stride (Conv2d ci co k s p d) = Some s"
| "conv_stride _ = None"

fun conv_channels :: "layer \<Rightarrow> (nat \<times> nat) option" where
  "conv_channels (Conv2d ci co k s p d) = Some (ci, co)"
| "conv_channels _ = None"

fun is_norm :: "layer \<Rightarrow> bool" where
  "is_norm (BatchNorm2d f) = True"
| "is_norm _ = False"

definition stages :: "Discriminator \<Rightarrow> layer list" where
  "stages m = [conv1 m, conv2 m, conv3 m, conv4 m, conv5 m]"

text \<open>
  The convolution path of the residual unit as the specification words it (one leaky
  rectification, between the first two convolutions), to compare with \<open>r_conv\<close>.
\<close>

definition Residual_conv_spec :: "nat \<Rightarrow> layer" where
  "Residual_conv_spec c =
     Sequential [Conv2d c (c div 4) 1 1 0 1,
                 LeakyReLU,
                 Conv2d (c div 4) (c div 4) 3 1 1 1,
                 Conv2d (c div 4) c 1 1 0 1]"

text \<open>
  \<open>with_kernel rt p k\<close>: the run-time state \<open>rt\<close> after the parameters of the learned
  layer at position \<open>p\<close> have been set so that it computes \<open>k\<close>.
\<close>

definition with_kernel :: "runtime \<Rightarrow> nat list \<Rightarrow> (tensor \<Rightarrow> data) \<Rightarrow> runtime" where
  "with_kernel rt p k = rt\<lparr>kernel := (kernel rt)(p := k)\<rparr>"

section \<open>Results and bounds\<close>

text \<open>
  \<open>returns r P\<close>: the call whose result is \<open>r\<close> does not raise, and its value satisfies
  \<open>P\<close>. \<open>bounded lo hi y\<close>: every element of \<open>y\<close> is a number between \<open>lo\<close> and
  \<open>hi\<close>. \<open>nan_or_bounded lo hi y\<close>: every element of \<open>y\<close> is NaN or a number between
  \<open>lo\<close> and \<open>hi\<close>.
\<close>

definition returns :: "'a option \<Rightarrow> ('a \<Rightarrow> bool) \<Rightarrow> bool" where
  "returns r P = (case r of None \<Rightarrow> False | Some y \<Rightarrow> P y)"

fun between :: "real \<Rightarrow> real \<Rightarrow> fl \<Rightarrow> bool" where
  "between lo hi (Fin v) = (lo \<le> v \<and> v \<le> hi)"
| "between lo hi _ = False"

definition bounded :: "real \<Rightarrow> real \<Rightarrow> tensor \<Rightarrow> bool" where
  "bounded lo hi y = (\<forall>n c i j. between lo hi (elem y n c i j))"

definition nan_or_bounded :: "real \<Rightarrow> real \<Rightarrow> tensor \<Rightarrow> bool" where
  "nan_or_bounded lo hi y = (\<forall>n c i j. elem y n c i j = NaN \<or> between lo hi (elem y n c i j))"



section \<open>The library's layers: shapes and ranges\<close>

lemma returns_Some [simp]: "returns (Some y) P = P y"
  by (simp add: returns_def)

lemma returns_None [simp]: "returns None P = False"
  by (simp add: returns_def)

lemma returns_iff: "returns r P = (\<exists>y. r = Some y \<and> P y)"
  by (cases r) simp_all

lemma returns_bind:
  "returns r P \<Longrightarrow> (\<And>y. P y \<Longrightarrow> returns (f y) Q) \<Longrightarrow> returns (Option.bind r f) Q"
  by (cases r) simp_all

lemma returns_weaken: "returns r P \<Longrightarrow> (\<And>y. P y \<Longrightarrow> Q y) \<Longrightarrow> returns r Q"
  by (cases r) simp_all

lemma training_sub [simp]: "training (sub i rt) = training rt"
  by (simp add: sub_def)

lemma kernel_sub [simp]: "kernel (sub i rt) p = kernel rt (i # p)"
  by (simp add: sub_def)

lemma sigmoid_bounds: "sigmoid v = NaN \<or> between 0 1 (sigmoid v)"
proof (cases v)
  case (Fin r)
  have p: "0 < 1 + exp (- r)" by (simp add: add_pos_pos)
  have "1 / (1 + exp (- r)) \<le> 1" using p by (simp add: divide_le_eq_1)
  moreover have "0 \<le> 1 / (1 + exp (- r))" using p by simp
  ultimately show ?thesis using Fin by simp
qed simp_all

lemma tanh_bounds: "tanh_fl v = NaN \<or> between (- 1) 1 (tanh_fl v)"
proof (cases v)
  case (Fin r)
  then show ?thesis using tanh_real_gt_neg1 [of r] tanh_real_lt_1 [of r] by simp
qed simp_all

lemma conv_shape_same3:
  "0 < h \<Longrightarrow> 0 < w \<Longrightarrow> 0 < ci \<Longrightarrow> 0 < co \<Longrightarrow> conv_shape ci co 3 1 1 1 (n, ci, h, w) = Some (n, co, h, w)"
  by (simp add: conv_shape_def conv_out_def)

lemma conv_shape_same1:
  "0 < h \<Longrightarrow> 0 < w \<Longrightarrow> 0 < ci \<Longrightarrow> 0 < co \<Longrightarrow> conv_shape ci co 1 1 0 1 (n, ci, h, w) = Some (n, co, h, w)"
  by (simp add: conv_shape_def conv_out_def)

lemma conv_shape_half:
  "0 < h \<Longrightarrow> 0 < w \<Longrightarrow> 0 < ci \<Longrightarrow> 0 < co
   \<Longrightarrow> conv_shape ci co 3 2 1 1 (n, ci, h, w) = Some (n, co, (h + 1) div 2, (w + 1) div 2)"
  by (simp add: conv_shape_def conv_out_def) arith

lemma deconv_shape_double:
  "0 < h \<Longrightarrow> 0 < w \<Longrightarrow> 0 < ci \<Longrightarrow> 0 < co \<Longrightarrow> deconv_shape ci co 3 2 1 1 (n, ci, h, w) = Some (n, co, 2 * h, 2 * w)"
  by (simp add: deconv_shape_def deconv_out_def) arith

lemma bn_ok_double: "bn_ok tr n (2 * h) w" "bn_ok tr n h (2 * w)"
  by (simp_all add: bn_ok_def)

lemma returns_seq_Nil: "P x \<Longrightarrow> returns (forward_seq rt i [] x) P"
  by simp

lemma returns_seq_Cons:
  "returns (forward (sub i rt) m x) P \<Longrightarrow> (\<And>y. P y \<Longrightarrow> returns (forward_seq rt (Suc i) ms y) Q)
   \<Longrightarrow> returns (forward_seq rt i (m # ms) x) Q"
  by (cases "forward (sub i rt) m x") simp_all

lemma returns_conv3:
  "dims x = (n, ci, h, w) \<Longrightarrow> 0 < h \<Longrightarrow> 0 < w \<Longrightarrow> 0 < ci \<Longrightarrow> 0 < co
   \<Longrightarrow> returns (forward rt (Conv2d ci co 3 1 1 1) x) (\<lambda>y. dims y = (n, co, h, w))"
  using conv_shape_same3 [of h w ci co n] by (simp add: learned_def)

lemma returns_conv1:
  "dims x = (n, ci, h, w) \<Longrightarrow> 0 < h \<Longrightarrow> 0 < w \<Longrightarrow> 0 < ci \<Longrightarrow> 0 < co
   \<Longrightarrow> returns (forward rt (Conv2d ci co 1 1 0 1) x) (\<lambda>y. dims y = (n, co, h, w))"
  using conv_shape_same1 [of h w ci co n] by (simp add: learned_def)

lemma returns_conv_half:
  "dims x = (n, ci, h, w) \<Longrightarrow> 0 < h \<Longrightarrow> 0 < w \<Longrightarrow> 0 < ci \<Longrightarrow> 0 < co
   \<Longrightarrow> returns (forward rt (Conv2d ci co 3 2 1 1) x) (\<lambda>y. dims y = (n, co, (h + 1) div 2, (w + 1) div 2))"
  using conv_shape_half [of h w ci co n] by (simp add: learned_def)

lemma returns_deconv:
  "dims x = (n, ci, h, w) \<Longrightarrow> 0 < h \<Longrightarrow> 0 < w \<Longrightarrow> 0 < ci \<Longrightarrow> 0 < co
   \<Longrightarrow> returns (forward rt (ConvTranspose2d ci co 3 2 1 1) x) (\<lambda>y. dims y = (n, co, 2 * h, 2 * w))"
  using deconv_shape_double [of h w ci co n] by (simp add: learned_def)

lemma returns_bn:
  "dims x = (n, c, h, w) \<Longrightarrow> bn_ok (training rt) n h w
   \<Longrightarrow> returns (forward rt (BatchNorm2d c) x) (\<lambda>y. dims y = (n, c, h, w))"
  by (simp add: learned_def bn_shape_def)

lemma returns_leaky:
  "dims x = s \<Longrightarrow> returns (forward rt LeakyReLU x) (\<lambda>y. dims y = s)"
  by (simp add: pointwise_def)

lemma returns_sigmoid:
  "dims x = s \<Longrightarrow> returns (forward rt Sigmoid x) (\<lambda>y. dims y = s \<and> nan_or_bounded 0 1 y)"
  by (simp add: pointwise_def nan_or_bounded_def sigmoid_bounds)

lemma returns_tanh:
  "dims x = s \<Longrightarrow> returns (forward rt Tanh x) (\<lambda>y. dims y = s \<and> nan_or_bounded (- 1) 1 y)"
  by (simp add: pointwise_def nan_or_bounded_def tanh_bounds)

lemma returns_conv_bn_relu:
  assumes "dims x = (n, ci, h, w)" "0 < h" "0 < w" "bn_ok (training rt) n h w"
    "0 < ci" "0 < co"
  shows "returns (forward rt (conv_bn_relu ci co) x) (\<lambda>y. dims y = (n, co, h, w))"
  unfolding conv_bn_relu_def forward.simps
  apply (rule returns_seq_Cons [where P = "\<lambda>y. dims y = (n, co, h, w)"])
   apply (rule returns_conv3; use assms in simp)
  apply (rule returns_seq_Cons [where P = "\<lambda>y. dims y = (n, co, h, w)"])
   apply (rule returns_bn; use assms in simp)
  apply (rule returns_seq_Cons [where P = "\<lambda>y. dims y = (n, co, h, w)"])
   apply (rule returns_leaky; simp)
  apply simp
  done

lemma returns_cat1:
  "dims a = (n, c, h, w) \<Longrightarrow> dims b = (n, c', h, w)
   \<Longrightarrow> returns (cat1 a b) (\<lambda>y. dims y = (n, c + c', h, w))"
  by (simp add: cat1_def)

lemma returns_add:
  "dims a = s \<Longrightarrow> dims b = s \<Longrightarrow> returns (add a b) (\<lambda>y. dims y = s)"
  by (cases s) (simp add: add_def bdim_def)

lemma returns_cbr2:
  assumes "dims x = (n, a, h, w)" "0 < h" "0 < w" "bn_ok (training rt) n h w"
    and "0 < a" "0 < b"
  shows "returns (forward rt (Sequential [conv_bn_relu a b, conv_bn_relu b b]) x)
           (\<lambda>y. dims y = (n, b, h, w))"
  unfolding forward.simps
  apply (rule returns_seq_Cons [where P = "\<lambda>y. dims y = (n, b, h, w)"])
   apply (rule returns_conv_bn_relu; use assms in simp)
  apply (rule returns_seq_Cons [where P = "\<lambda>y. dims y = (n, b, h, w)"])
   apply (rule returns_conv_bn_relu; use assms in simp)
  apply simp
  done

lemma returns_down:
  assumes "dims x = (n, a, h, w)" "0 < h" "0 < w"
    and "bn_ok (training rt) n ((h + 1) div 2) ((w + 1) div 2)"
    and "0 < a" "0 < b"
  shows "returns (forward rt (Sequential [Conv2d a b 3 2 1 1, LeakyReLU,
                                          conv_bn_relu b b, conv_bn_relu b b]) x)
           (\<lambda>y. dims y = (n, b, (h + 1) div 2, (w + 1) div 2))"
proof -
  have pos: "0 < (h + 1) div 2" "0 < (w + 1) div 2" using assms(2,3) by arith+
  let ?P = "\<lambda>y. dims y = (n, b, (h + 1) div 2, (w + 1) div 2)"
  show ?thesis
    unfolding forward.simps
    apply (rule returns_seq_Cons [where P = ?P])
     apply (rule returns_conv_half; use assms in simp)
    apply (rule returns_seq_Cons [where P = ?P])
     apply (rule returns_leaky; simp)
    apply (rule returns_seq_Cons [where P = ?P])
     apply (rule returns_conv_bn_relu; use assms pos in simp)
    apply (rule returns_seq_Cons [where P = ?P])
     apply (rule returns_conv_bn_relu; use assms pos in simp)
    apply simp
    done
qed

lemma returns_up:
  assumes "dims x = (n, a, h, w)" "0 < h" "0 < w"
    and "0 < a" "0 < b"
  shows "returns (forward rt (Sequential [ConvTranspose2d a b 3 2 1 1, LeakyReLU]) x)
           (\<lambda>y. dims y = (n, b, 2 * h, 2 * w))"
  unfolding forward.simps
  apply (rule returns_seq_Cons [where P = "\<lambda>y. dims y = (n, b, 2 * h, 2 * w)"])
   apply (rule returns_deconv; use assms in simp)
  apply (rule returns_seq_Cons [where P = "\<lambda>y. dims y = (n, b, 2 * h, 2 * w)"])
   apply (rule returns_leaky; simp)
  apply simp
  done

lemma returns_tanh_head:
  assumes "dims x = (n, a, h, w)" "0 < h" "0 < w"
    and "0 < a" "0 < b"
  shows "returns (forward rt (Sequential [Conv2d a b 3 1 1 1, Tanh]) x)
           (\<lambda>y. dims y = (n, b, h, w) \<and> nan_or_bounded (- 1) 1 y)"
  unfolding forward.simps
  apply (rule returns_seq_Cons [where P = "\<lambda>y. dims y = (n, b, h, w)"])
   apply (rule returns_conv3; use assms in simp)
  apply (rule returns_seq_Cons [where P = "\<lambda>y. dims y = (n, b, h, w) \<and> nan_or_bounded (- 1) 1 y"])
   apply (rule returns_tanh; simp)
  apply simp
  done

lemma returns_Residual_conv:
  assumes "dims x = (n, c, h, w)" "0 < h" "0 < w"
    and cpos: "4 \<le> c"
  shows "returns (forward rt (r_conv (Residual c)) x) (\<lambda>y. dims y = (n, c, h, w))"
proof -
  let ?P = "\<lambda>y. dims y = (n, c div 4, h, w)"
  have q: "0 < c div 4" "0 < c" using cpos by (simp_all add: div_greater_zero_iff)
  show ?thesis
    unfolding Residual_def Let_def Residual.select_convs forward.simps
    apply (rule returns_seq_Cons [where P = ?P])
     apply (rule returns_conv1; use assms q in simp)
    apply (rule returns_seq_Cons [where P = ?P])
     apply (rule returns_leaky; simp)
    apply (rule returns_seq_Cons [where P = ?P])
     apply (rule returns_conv3; use assms q in simp)
    apply (rule returns_seq_Cons [where P = ?P])
     apply (rule returns_leaky; simp)
    apply (rule returns_seq_Cons [where P = "\<lambda>y. dims y = (n, c, h, w)"])
     apply (rule returns_conv1; use assms q in simp)
    apply simp
    done
qed

lemma returns_Residual:
  assumes "dims x = (n, c, h, w)" "0 < h" "0 < w" "bn_ok (training rt) n h w"
    and cpos: "4 \<le> c"
  shows "returns (Residual_forward rt (Residual c) x) (\<lambda>y. dims y = (n, c, h, w))"
proof -
  have bn: "r_bn (Residual c) = BatchNorm2d c" by (simp add: Residual_def Let_def)
  let ?P = "\<lambda>y. dims y = (n, c, h, w)"
  show ?thesis
    unfolding Residual_forward_def bn
    apply (rule returns_bind [where P = ?P])
     apply (rule returns_Residual_conv; use assms in simp)
    apply (rule returns_bind [where P = ?P])
     apply (rule returns_add; use assms in simp)
    apply (rule returns_bind [where P = ?P])
     apply (rule returns_bn; use assms in simp)
    apply (simp add: pointwise_def)
    done
qed

lemma returns_Residual_seq:
  assumes "0 < h" "0 < w" "bn_ok (training rt) n h w"
    and cpos: "4 \<le> c"
  shows "dims x = (n, c, h, w)
    \<Longrightarrow> returns (Residual_seq rt i (replicate k (Residual c)) x) (\<lambda>y. dims y = (n, c, h, w))"
proof (induction k arbitrary: x i)
  case 0
  then show ?case by simp
next
  case (Suc k)
  show ?case
    unfolding replicate_Suc Residual_seq.simps
    apply (rule returns_bind [where P = "\<lambda>y. dims y = (n, c, h, w)"])
     apply (rule returns_Residual; use assms Suc.prems in simp)
    apply (rule Suc.IH)
    apply assumption
    done
qed

lemma returns_ResNet:
  assumes "dims x = (n, c, h, w)" "0 < h" "0 < w" "bn_ok (training rt) n h w"
    and cpos: "4 \<le> c"
  shows "returns (ResNet_forward rt (ResNet c) x) (\<lambda>y. dims y = (n, c, h, w))"
proof -
  have l: "rn_layer (ResNet c) = replicate 4 (Residual c)"
    by (simp add: ResNet_def numeral_eq_Suc)
  show ?thesis
    unfolding ResNet_forward_def l
    by (rule returns_Residual_seq) (simp_all add: assms)
qed

lemma bn_ok_even: "even h \<Longrightarrow> bn_ok tr n h w"
  by (auto simp: bn_ok_def)

lemma returns_down_even:
  assumes "dims x = (n, a, 2 * h, 2 * w)" "0 < h" "0 < w" "bn_ok (training rt) n h w"
    and "0 < a" "0 < b"
  shows "returns (forward rt (Sequential [Conv2d a b 3 2 1 1, LeakyReLU,
                                          conv_bn_relu b b, conv_bn_relu b b]) x)
           (\<lambda>y. dims y = (n, b, h, w))"
proof -
  have bn: "bn_ok (training rt) n ((2 * h + 1) div 2) ((2 * w + 1) div 2)"
    using assms(4) by simp
  have "returns (forward rt (Sequential [Conv2d a b 3 2 1 1, LeakyReLU,
                                         conv_bn_relu b b, conv_bn_relu b b]) x)
          (\<lambda>y. dims y = (n, b, (2 * h + 1) div 2, (2 * w + 1) div 2))"
    using assms by (intro returns_down [OF assms(1) _ _ bn]) simp_all
  then show ?thesis by simp
qed

lemma returns_up_to:
  assumes "dims x = (n, a, h, w)" "0 < h" "0 < w" "h' = 2 * h" "w' = 2 * w"
    and "0 < a" "0 < b"
  shows "returns (forward rt (Sequential [ConvTranspose2d a b 3 2 1 1, LeakyReLU]) x)
           (\<lambda>y. dims y = (n, b, h', w'))"
  using returns_up [OF assms(1-3) assms(6,7)] assms(4,5) by simp

lemma returns_EncoderNet:
  assumes "dims x = (n, ci, 8 * h, 8 * w)" "0 < h" "0 < w" "bn_ok (training rt) n h w"
    and cpos: "0 < ci"
  shows "returns (EncoderNet_forward rt (EncoderNet ci) x g)
           (\<lambda>r. \<exists>out f2 f1. r = (if g then OutFeatures out [f2, f1] else Out out)
                   \<and> dims out = (n, 256, h, w)
                   \<and> dims f2 = (n, 128, 2 * h, 2 * w)
                   \<and> dims f1 = (n, 64, 4 * h, 4 * w))"
  unfolding EncoderNet_forward_def EncoderNet_def EncoderNet.select_convs Let_def
  apply (rule returns_bind [where P = "\<lambda>y. dims y = (n, 32, 8 * h, 8 * w)"])
   apply (rule returns_cbr2; use assms in \<open>simp add: bn_ok_even\<close>)
  apply (rule returns_bind [where P = "\<lambda>y. dims y = (n, 64, 4 * h, 4 * w)"])
   apply (rule returns_down_even; use assms in \<open>simp add: bn_ok_even\<close>)
  apply (rule returns_bind [where P = "\<lambda>y. dims y = (n, 128, 2 * h, 2 * w)"])
   apply (rule returns_down_even; use assms in \<open>simp add: bn_ok_even\<close>)
  apply (rule returns_bind [where P = "\<lambda>y. dims y = (n, 256, h, w)"])
   apply (rule returns_down_even; use assms in \<open>simp add: bn_ok_even\<close>)
  apply (cases g; simp; blast)
  done

lemma DecoderNet_None: "DecoderNet cin None = DecoderNet cin (Some (0, 0, 0))"
  by (simp add: DecoderNet_def)

lemma returns_DecoderNet:
  assumes x: "dims x = (n, cin, h, w)" and pos: "0 < h" "0 < w"
    and bn: "bn_ok (training rt) n h w"
    and cpos: "0 < cin"
    and k0: "\<And>y. dims y = (n, cin, h, w)
               \<Longrightarrow> returns (cat_skip y fuse 0) (\<lambda>z. dims z = (n, cin + f1, h, w))"
    and k1: "\<And>y. dims y = (n, 128, 2 * h, 2 * w)
               \<Longrightarrow> returns (cat_skip y fuse 1) (\<lambda>z. dims z = (n, 128 + f2, 2 * h, 2 * w))"
    and k2: "\<And>y. dims y = (n, 64, 4 * h, 4 * w)
               \<Longrightarrow> returns (cat_skip y fuse 2) (\<lambda>z. dims z = (n, 64 + f3, 4 * h, 4 * w))"
  shows "returns (DecoderNet_forward rt (DecoderNet cin (Some (f1, f2, f3))) x fuse g)
           (\<lambda>r. \<exists>out g1 g2 g3. r = (if g then OutFeatures out [g1, g2, g3] else Out out)
                   \<and> dims out = (n, 32, 8 * h, 8 * w)
                   \<and> dims g1 = (n, 256, h, w)
                   \<and> dims g2 = (n, 128, 2 * h, 2 * w)
                   \<and> dims g3 = (n, 64, 4 * h, 4 * w))"
  unfolding DecoderNet_forward_def DecoderNet_def DecoderNet.select_convs Let_def
    option.case prod.case
  apply (rule returns_bind [where P = "\<lambda>y. dims y = (n, cin + f1, h, w)"])
   apply (rule k0 [OF x])
  apply (rule returns_bind [where P = "\<lambda>y. dims y = (n, 256, h, w)"])
   apply (rule returns_cbr2; use pos bn cpos in simp)
  apply (rule returns_bind [where P = "\<lambda>y. dims y = (n, 128, 2 * h, 2 * w)"])
   apply (rule returns_up; use pos in simp)
  apply (rule returns_bind [where P = "\<lambda>y. dims y = (n, 128 + f2, 2 * h, 2 * w)"])
   apply (rule k1; simp)
  apply (rule returns_bind [where P = "\<lambda>y. dims y = (n, 128, 2 * h, 2 * w)"])
   apply (rule returns_cbr2; use pos in \<open>simp add: bn_ok_even\<close>)
  apply (rule returns_bind [where P = "\<lambda>y. dims y = (n, 64, 4 * h, 4 * w)"])
   apply (rule returns_up_to [where h = "2 * h" and w = "2 * w"]; use pos in simp)
  apply (rule returns_bind [where P = "\<lambda>y. dims y = (n, 64 + f3, 4 * h, 4 * w)"])
   apply (rule k2; simp)
  apply (rule returns_bind [where P = "\<lambda>y. dims y = (n, 64, 4 * h, 4 * w)"])
   apply (rule returns_cbr2; use pos in \<open>simp add: bn_ok_even\<close>)
  apply (rule returns_bind [where P = "\<lambda>y. dims y = (n, 32, 8 * h, 8 * w)"])
   apply (rule returns_up_to [where h = "4 * h" and w = "4 * w"]; use pos in simp)
  apply (rule returns_bind [where P = "\<lambda>y. dims y = (n, 32, 8 * h, 8 * w)"])
   apply (rule returns_cbr2; use pos in \<open>simp add: bn_ok_even\<close>)
  apply (cases g; simp; blast)
  done

lemma returns_cat_skip_None:
  "dims y = (n, c, h, w) \<Longrightarrow> returns (cat_skip y None i) (\<lambda>z. dims z = (n, c + 0, h, w))"
  by (simp add: cat_skip_def)

lemma returns_cat_skip_absent:
  "dims y = (n, c, h, w) \<Longrightarrow> i < length l \<Longrightarrow> l ! i = None
   \<Longrightarrow> returns (cat_skip y (Some l) i) (\<lambda>z. dims z = (n, c + 0, h, w))"
  by (auto simp: cat_skip_def)

lemma returns_cat_skip_present:
  "dims y = (n, c, h, w) \<Longrightarrow> i < length l \<Longrightarrow> l ! i = Some t \<Longrightarrow> dims t = (n, f, h, w)
   \<Longrightarrow> returns (cat_skip y (Some l) i) (\<lambda>z. dims z = (n, c + f, h, w))"
  by (auto simp: cat_skip_def cat1_def)

lemma returns_plain:
  "returns r (\<lambda>v. \<exists>out. v = Out out \<and> P out) \<Longrightarrow> returns (plain r) P"
  by (cases r) auto

lemma returns_encoder_plain:
  assumes "dims x = (n, ci, 8 * h, 8 * w)" "0 < h" "0 < w" "bn_ok (training rt) n h w"
    and cpos: "0 < ci"
  shows "returns (plain (EncoderNet_forward rt (EncoderNet ci) x False))
           (\<lambda>y. dims y = (n, 256, h, w))"
  by (rule returns_plain, rule returns_weaken [OF returns_EncoderNet [OF assms]]) auto

lemma returns_decoder_plain:
  assumes "dims x = (n, cin, h, w)" "0 < h" "0 < w" "bn_ok (training rt) n h w"
    and cpos: "0 < cin"
  shows "returns (plain (DecoderNet_forward rt (DecoderNet cin None) x None False))
           (\<lambda>y. dims y = (n, 32, 8 * h, 8 * w))"
  unfolding DecoderNet_None
  apply (rule returns_plain)
  apply (rule returns_weaken)
   apply (rule returns_DecoderNet [OF assms]; rule returns_cat_skip_None; assumption)
  apply auto
  done

lemma returns_encoder_resnet:
  assumes "dims x = (n, ci, 8 * h, 8 * w)" "0 < h" "0 < w" "bn_ok (training rt) n h w"
    and cpos: "0 < ci"
  shows "returns (encoder_resnet rt (EncoderNet ci, ResNet 256) x) (\<lambda>y. dims y = (n, 256, h, w))"
  unfolding encoder_resnet_def fst_conv snd_conv
  apply (rule returns_bind [where P = "\<lambda>y. dims y = (n, 256, h, w)"])
   apply (rule returns_encoder_plain; use assms in simp)
  apply (rule returns_ResNet; use assms in simp)
  done

lemma returns_decoder_head:
  assumes "dims x = (n, cin, h, w)" "0 < h" "0 < w" "bn_ok (training rt) n h w"
    and cpos: "0 < cin"
  shows "returns (decoder_head rt (DecoderNet cin None, Conv2d 32 1 3 1 1 1, Sigmoid) x)
           (\<lambda>y. dims y = (n, 1, 8 * h, 8 * w) \<and> nan_or_bounded 0 1 y)"
  unfolding decoder_head_def fst_conv snd_conv
  apply (rule returns_bind [where P = "\<lambda>y. dims y = (n, 32, 8 * h, 8 * w)"])
   apply (rule returns_decoder_plain; use assms in simp)
  apply (rule returns_bind [where P = "\<lambda>y. dims y = (n, 1, 8 * h, 8 * w)"])
   apply (rule returns_conv3; use assms in simp)
  apply (rule returns_sigmoid; simp)
  done

lemma returns_TextConversionNet:
  assumes "dims x_t = (n, ci, 8 * h, 8 * w)" "dims x_s = (n, ci, 8 * h, 8 * w)"
    "0 < h" "0 < w" "bn_ok (training rt) n h w"
    and cpos: "0 < ci"
  shows "returns (TextConversionNet_forward rt (TextConversionNet ci) x_t x_s)
           (\<lambda>r. dims (fst r) = (n, 1, 8 * h, 8 * w) \<and> nan_or_bounded 0 1 (fst r)
               \<and> dims (snd r) = (n, 3, 8 * h, 8 * w) \<and> nan_or_bounded (- 1) 1 (snd r))"
  unfolding TextConversionNet_forward_def TextConversionNet_def TextConversionNet.select_convs
  apply (rule returns_bind [where P = "\<lambda>y. dims y = (n, 256, h, w)"])
   apply (rule returns_encoder_resnet; use assms in simp)
  apply (rule returns_bind [where P = "\<lambda>y. dims y = (n, 256, h, w)"])
   apply (rule returns_encoder_resnet; use assms in simp)
  apply (rule returns_bind [where P = "\<lambda>y. dims y = (n, 256 + 256, h, w)"])
   apply (rule returns_cat1; simp)
  apply (rule returns_bind [where P = "\<lambda>y. dims y = (n, 1, 8 * h, 8 * w) \<and> nan_or_bounded 0 1 y"])
   apply (rule returns_decoder_head; use assms in simp)
  apply (rule returns_bind [where P = "\<lambda>y. dims y = (n, 32, 8 * h, 8 * w)"])
   apply (rule returns_decoder_plain; use assms in simp)
  apply (rule returns_bind [where P = "\<lambda>y. dims y = (n, 1 + 32, 8 * h, 8 * w)"])
   apply (rule returns_cat1; simp)
  apply (rule returns_bind [where P = "\<lambda>y. dims y = (n, 32 + 1, 8 * h, 8 * w)"])
   apply (rule returns_conv_bn_relu; use assms in \<open>simp add: bn_ok_even\<close>)
  apply (rule returns_bind [where P = "\<lambda>y. dims y = (n, 3, 8 * h, 8 * w) \<and> nan_or_bounded (- 1) 1 y"])
   apply (rule returns_tanh_head; use assms in simp)
  apply simp
  done

lemma returns_BackgroundInpaintingNet:
  assumes x: "dims x = (n, ci, 8 * h, 8 * w)" and pos: "0 < h" "0 < w"
    and bn: "bn_ok (training rt) n h w"
    and cpos: "0 < ci"
  shows "returns (BackgroundInpaintingNet_forward rt (BackgroundInpaintingNet ci) x)
           (\<lambda>r. dims (fst r) = (n, 3, 8 * h, 8 * w) \<and> nan_or_bounded (- 1) 1 (fst r)
               \<and> (\<exists>g1 g2 g3. snd r = [g1, g2, g3]
                     \<and> dims g1 = (n, 256, h, w)
                     \<and> dims g2 = (n, 128, 2 * h, 2 * w)
                     \<and> dims g3 = (n, 64, 4 * h, 4 * w)))"
proof -
  let ?m = "BackgroundInpaintingNet ci"
  have sel: "b_encoder ?m = EncoderNet ci" "b_resnet ?m = ResNet 256"
    "b_decoder ?m = DecoderNet 256 (Some (0, 128, 64))"
    "b_last ?m = Sequential [Conv2d 32 3 3 1 1 1, Tanh]"
    by (simp_all add: BackgroundInpaintingNet_def)
  have tr: "bn_ok (training (sub k rt)) n h w" for k using bn by simp
  obtain out f2 f1 where
    enc: "EncoderNet_forward (sub 0 rt) (EncoderNet ci) x True = Some (OutFeatures out [f2, f1])"
    and out: "dims out = (n, 256, h, w)"
    and f2: "dims f2 = (n, 128, 2 * h, 2 * w)" and f1: "dims f1 = (n, 64, 4 * h, 4 * w)"
    using returns_EncoderNet [OF x pos tr [of 0] cpos, of True] by (auto simp: returns_iff)
  obtain res where
    res: "ResNet_forward (sub 1 rt) (ResNet 256) out = Some res"
    and dres: "dims res = (n, 256, h, w)"
    using returns_ResNet [OF out pos tr [of 1]] by (auto simp: returns_iff)
  have "returns (DecoderNet_forward (sub 2 rt) (DecoderNet 256 (Some (0, 128, 64))) res
                   (Some [None, Some f2, Some f1]) True)
          (\<lambda>r. \<exists>o' g1 g2 g3. r = (if True then OutFeatures o' [g1, g2, g3] else Out o')
                   \<and> dims o' = (n, 32, 8 * h, 8 * w)
                   \<and> dims g1 = (n, 256, h, w)
                   \<and> dims g2 = (n, 128, 2 * h, 2 * w)
                   \<and> dims g3 = (n, 64, 4 * h, 4 * w))"
    apply (rule returns_DecoderNet [OF dres pos tr [of 2]])
       apply simp
      apply (rule returns_cat_skip_absent; simp)
     apply (rule returns_cat_skip_present [where t = f2]; simp add: f2)
    apply (rule returns_cat_skip_present [where t = f1]; simp add: f1)
    done
  then obtain o' g1 g2 g3 where
    dec: "DecoderNet_forward (sub 2 rt) (DecoderNet 256 (Some (0, 128, 64))) res
            (Some [None, Some f2, Some f1]) True = Some (OutFeatures o' [g1, g2, g3])"
    and do': "dims o' = (n, 32, 8 * h, 8 * w)"
    and g: "dims g1 = (n, 256, h, w)" "dims g2 = (n, 128, 2 * h, 2 * w)"
      "dims g3 = (n, 64, 4 * h, 4 * w)"
    by (auto simp: returns_iff)
  obtain l where
    l: "forward (sub 3 rt) (Sequential [Conv2d 32 3 3 1 1 1, Tanh]) o' = Some l"
    and dl: "dims l = (n, 3, 8 * h, 8 * w)" "nan_or_bounded (- 1) 1 l"
    using returns_tanh_head [OF do', where rt = "sub 3 rt" and b = 3] pos by (auto simp: returns_iff)
  have "BackgroundInpaintingNet_forward rt ?m x = Some (l, [g1, g2, g3])"
    using enc res dec l unfolding BackgroundInpaintingNet_forward_def sel by simp
  then show ?thesis by (simp add: dl g)
qed

lemma returns_FusionNet:
  assumes x: "dims x = (n, ci, 8 * h, 8 * w)" and pos: "0 < h" "0 < w"
    and bn: "bn_ok (training rt) n h w"
    and g: "dims g1 = (n, 256, h, w)" "dims g2 = (n, 128, 2 * h, 2 * w)"
      "dims g3 = (n, 64, 4 * h, 4 * w)"
    and cpos: "0 < ci"
  shows "returns (FusionNet_forward rt (FusionNet ci) x (Some [Some g1, Some g2, Some g3]))
           (\<lambda>y. dims y = (n, 3, 8 * h, 8 * w) \<and> nan_or_bounded (- 1) 1 y)"
  unfolding FusionNet_forward_def FusionNet_def FusionNet.select_convs
  apply (rule returns_bind [where P = "\<lambda>y. dims y = (n, 256, h, w)"])
   apply (rule returns_encoder_plain; use x pos bn cpos in simp)
  apply (rule returns_bind [where P = "\<lambda>y. dims y = (n, 256, h, w)"])
   apply (rule returns_ResNet; use pos bn in simp)
  apply (rule returns_bind [where P = "\<lambda>y. dims y = (n, 32, 8 * h, 8 * w)"])
   apply (rule returns_plain)
   apply (rule returns_weaken)
    apply (rule returns_DecoderNet [where h = h and w = w and n = n])
          apply assumption
         apply (rule pos)
        apply (rule pos)
       apply (use bn in simp)
      apply simp
      apply (rule returns_cat_skip_present [where t = g1]; simp add: g)
     apply (rule returns_cat_skip_present [where t = g2]; simp add: g)
    apply (rule returns_cat_skip_present [where t = g3]; simp add: g)
   apply auto[1]
  apply (rule returns_tanh_head; use pos in simp)
  done

lemma returns_Generator:
  assumes t: "dims i_t = (n, 3, 8 * h, 8 * w)" and s: "dims i_s = (n, 3, 8 * h, 8 * w)"
    and pos: "0 < h" "0 < w" and bn: "bn_ok (training rt) n h w"
  shows "returns (Generator_forward rt (Generator 3) (i_t, i_s))
           (\<lambda>r. case r of (o_sk, o_t, o_b, o_f) \<Rightarrow>
                dims o_sk = (n, 1, 8 * h, 8 * w) \<and> nan_or_bounded 0 1 o_sk
              \<and> dims o_t = (n, 3, 8 * h, 8 * w) \<and> nan_or_bounded (- 1) 1 o_t
              \<and> dims o_b = (n, 3, 8 * h, 8 * w) \<and> nan_or_bounded (- 1) 1 o_b
              \<and> dims o_f = (n, 3, 8 * h, 8 * w) \<and> nan_or_bounded (- 1) 1 o_f)"
proof -
  have tr: "bn_ok (training (sub k rt)) n h w" for k using bn by simp
  obtain o_sk o_t where
    tc: "TextConversionNet_forward (sub 0 rt) (TextConversionNet 3) i_t i_s = Some (o_sk, o_t)"
    and sk: "dims o_sk = (n, 1, 8 * h, 8 * w)" "nan_or_bounded 0 1 o_sk"
    and ot: "dims o_t = (n, 3, 8 * h, 8 * w)" "nan_or_bounded (- 1) 1 o_t"
    using returns_TextConversionNet [OF t s pos tr [of 0]] by (auto simp: returns_iff)
  obtain o_b g1 g2 g3 where
    bi: "BackgroundInpaintingNet_forward (sub 1 rt) (BackgroundInpaintingNet 3) i_s
           = Some (o_b, [g1, g2, g3])"
    and ob: "dims o_b = (n, 3, 8 * h, 8 * w)" "nan_or_bounded (- 1) 1 o_b"
    and g: "dims g1 = (n, 256, h, w)" "dims g2 = (n, 128, 2 * h, 2 * w)"
      "dims g3 = (n, 64, 4 * h, 4 * w)"
    using returns_BackgroundInpaintingNet [OF s pos tr [of 1]] by (auto simp: returns_iff)
  obtain o_f where
    fu: "FusionNet_forward (sub 2 rt) (FusionNet 3) o_t (Some [Some g1, Some g2, Some g3])
           = Some o_f"
    and "of": "dims o_f = (n, 3, 8 * h, 8 * w)" "nan_or_bounded (- 1) 1 o_f"
    using returns_FusionNet [OF ot(1) pos tr [of 2] g] by (auto simp: returns_iff)
  have "Generator_forward rt (Generator 3) (i_t, i_s) = Some (o_sk, o_t, o_b, o_f)"
    using tc bi fu by (simp add: Generator_forward_def Generator_def)
  then show ?thesis by (simp add: sk ot ob "of")
qed

lemma bn_ok_finer:
  assumes "bn_ok tr n ((h + 1) div 2) ((w + 1) div 2)" "0 < h" "0 < w"
  shows "bn_ok tr n h w"
proof (rule ccontr)
  assume "\<not> bn_ok tr n h w"
  then have "tr" "n * h * w = 1" by (simp_all add: bn_ok_def)
  then have "n = 1" "h = 1" "w = 1" by simp_all
  with \<open>tr\<close> assms(1) show False by (simp add: bn_ok_def)
qed

lemma returns_disc_stage:
  assumes "dims x = (n, a, h, w)" "0 < h" "0 < w"
    and "bn_ok (training rt) n ((h + 1) div 2) ((w + 1) div 2)"
    and "0 < a" "0 < b"
  shows "returns (forward rt (Sequential [Conv2d a b 3 2 1 1, BatchNorm2d b, LeakyReLU]) x)
           (\<lambda>y. dims y = (n, b, (h + 1) div 2, (w + 1) div 2))"
proof -
  let ?P = "\<lambda>y. dims y = (n, b, (h + 1) div 2, (w + 1) div 2)"
  show ?thesis
    unfolding forward.simps
    apply (rule returns_seq_Cons [where P = ?P])
     apply (rule returns_conv_half; use assms in simp)
    apply (rule returns_seq_Cons [where P = ?P])
     apply (rule returns_bn; use assms in simp)
    apply (rule returns_seq_Cons [where P = ?P])
     apply (rule returns_leaky; simp)
    apply simp
    done
qed

lemma returns_sn_conv_half:
  assumes "dims x = (n, a, h, w)" "0 < h" "0 < w"
    and "0 < a" "0 < b"
  shows "returns (forward rt (SpectralNorm (Conv2d a b 3 2 1 1)) x)
           (\<lambda>y. dims y = (n, b, (h + 1) div 2, (w + 1) div 2))"
  using returns_conv_half [OF assms, where rt = "sub 0 rt"] by simp

lemma returns_sn_stage:
  assumes "dims x = (n, a, h, w)" "0 < h" "0 < w"
    and "0 < a" "0 < b"
  shows "returns (forward rt (Sequential [SpectralNorm (Conv2d a b 3 2 1 1), LeakyReLU]) x)
           (\<lambda>y. dims y = (n, b, (h + 1) div 2, (w + 1) div 2))"
proof -
  let ?P = "\<lambda>y. dims y = (n, b, (h + 1) div 2, (w + 1) div 2)"
  show ?thesis
    unfolding forward.simps
    apply (rule returns_seq_Cons [where P = ?P])
     apply (rule returns_sn_conv_half; use assms in simp)
    apply (rule returns_seq_Cons [where P = ?P])
     apply (rule returns_leaky; simp)
    apply simp
    done
qed

lemma returns_disc_last:
  assumes "dims x = (n, a, h, w)" "0 < h" "0 < w" "bn_ok (training rt) n h w"
    and "0 < a" "0 < b"
  shows "returns (forward rt (Sequential [Conv2d a b 3 1 1 1, BatchNorm2d b, Sigmoid]) x)
           (\<lambda>y. dims y = (n, b, h, w) \<and> nan_or_bounded 0 1 y)"
proof -
  let ?P = "\<lambda>y. dims y = (n, b, h, w)"
  show ?thesis
    unfolding forward.simps
    apply (rule returns_seq_Cons [where P = ?P])
     apply (rule returns_conv3; use assms in simp)
    apply (rule returns_seq_Cons [where P = ?P])
     apply (rule returns_bn; use assms in simp)
    apply (rule returns_seq_Cons [where P = "\<lambda>y. dims y = (n, b, h, w) \<and> nan_or_bounded 0 1 y"])
     apply (rule returns_sigmoid; simp)
    apply simp
    done
qed

lemma returns_sn_last:
  assumes "dims x = (n, a, h, w)" "0 < h" "0 < w"
    and "0 < a" "0 < b"
  shows "returns (forward rt (Sequential [Conv2d a b 3 1 1 1]) x)
           (\<lambda>y. dims y = (n, b, h, w) \<and> elem y = kernel rt [0] x)"
  using conv_shape_same3 [of h w a b n] assms by (simp add: learned_def)

lemma half4: "((((h + 1) div 2 + 1) div 2 + 1) div 2 + 1) div 2 = (h + 15) div (16::nat)"
  by arith

lemma half_pos: "0 < h \<Longrightarrow> 0 < (h + 1) div (2::nat)"
  by arith

lemma returns_Discriminator:
  assumes x: "dims x = (n, ci, h, w)" and pos: "0 < h" "0 < w"
    and bn: "bn_ok (training rt) n ((h + 15) div 16) ((w + 15) div 16)"
    and cpos: "0 < ci"
  shows "returns (Discriminator_forward rt (Discriminator ci) x)
           (\<lambda>y. dims y = (n, 1, (h + 15) div 16, (w + 15) div 16) \<and> nan_or_bounded 0 1 y)"
proof -
  define h1 w1 where "h1 = (h + 1) div 2" and "w1 = (w + 1) div 2"
  define h2 w2 where "h2 = (h1 + 1) div 2" and "w2 = (w1 + 1) div 2"
  define h3 w3 where "h3 = (h2 + 1) div 2" and "w3 = (w2 + 1) div 2"
  define h4 w4 where "h4 = (h3 + 1) div 2" and "w4 = (w3 + 1) div 2"
  have e: "(h + 15) div 16 = h4" "(w + 15) div 16 = w4"
    unfolding h4_def w4_def h3_def w3_def h2_def w2_def h1_def w1_def by (simp_all only: half4)
  have p1: "0 < h1" "0 < w1" unfolding h1_def w1_def using pos by (simp_all only: half_pos)
  have p2: "0 < h2" "0 < w2" unfolding h2_def w2_def using p1 by (simp_all only: half_pos)
  have p3: "0 < h3" "0 < w3" unfolding h3_def w3_def using p2 by (simp_all only: half_pos)
  have p4: "0 < h4" "0 < w4" unfolding h4_def w4_def using p3 by (simp_all only: half_pos)
  have b4: "bn_ok (training rt) n h4 w4" using bn by (simp only: e)
  have b3: "bn_ok (training rt) n h3 w3"
    by (rule bn_ok_finer [OF _ p3]) (use b4 in \<open>simp only: h4_def w4_def\<close>)
  have b2: "bn_ok (training rt) n h2 w2"
    by (rule bn_ok_finer [OF _ p2]) (use b3 in \<open>simp only: h3_def w3_def\<close>)
  have b1: "bn_ok (training rt) n h1 w1"
    by (rule bn_ok_finer [OF _ p1]) (use b2 in \<open>simp only: h2_def w2_def\<close>)
  have s1: "returns (forward (sub 0 rt) (Sequential [Conv2d ci 64 3 2 1 1, BatchNorm2d 64, LeakyReLU]) x)
              (\<lambda>y. dims y = (n, 64, h1, w1))"
    unfolding h1_def w1_def by (rule returns_disc_stage [OF x pos]) (use b1 cpos in \<open>simp_all add: h1_def w1_def\<close>)
  have s2: "returns (forward (sub 1 rt) (Sequential [Conv2d 64 128 3 2 1 1, BatchNorm2d 128, LeakyReLU]) y)
              (\<lambda>y. dims y = (n, 128, h2, w2))" if "dims y = (n, 64, h1, w1)" for y
    unfolding h2_def w2_def by (rule returns_disc_stage [OF that p1]) (use b2 cpos in \<open>simp_all add: h2_def w2_def\<close>)
  have s3: "returns (forward (sub 2 rt) (Sequential [Conv2d 128 256 3 2 1 1, BatchNorm2d 256, LeakyReLU]) y)
              (\<lambda>y. dims y = (n, 256, h3, w3))" if "dims y = (n, 128, h2, w2)" for y
    unfolding h3_def w3_def by (rule returns_disc_stage [OF that p2]) (use b3 cpos in \<open>simp_all add: h3_def w3_def\<close>)
  have s4: "returns (forward (sub 3 rt) (Sequential [Conv2d 256 512 3 2 1 1, BatchNorm2d 512, LeakyReLU]) y)
              (\<lambda>y. dims y = (n, 512, h4, w4))" if "dims y = (n, 256, h3, w3)" for y
    unfolding h4_def w4_def by (rule returns_disc_stage [OF that p3]) (use b4 cpos in \<open>simp_all add: h4_def w4_def\<close>)
  have s5: "returns (forward (sub 4 rt) (Sequential [Conv2d 512 1 3 1 1 1, BatchNorm2d 1, Sigmoid]) y)
              (\<lambda>y. dims y = (n, 1, h4, w4) \<and> nan_or_bounded 0 1 y)" if "dims y = (n, 512, h4, w4)" for y
    by (rule returns_disc_last [OF that p4]) (use b4 in simp_all)
  show ?thesis
    unfolding Discriminator_forward_def Discriminator_def Discriminator.select_convs e
    apply (rule returns_bind [OF s1])
    apply (rule returns_bind [OF s2], assumption)
    apply (rule returns_bind [OF s3], assumption)
    apply (rule returns_bind [OF s4], assumption)
    apply (rule s5, assumption)
    done
qed

lemma returns_SNDiscriminator:
  assumes x: "dims x = (n, ci, h, w)" and pos: "0 < h" "0 < w"
    and cpos: "0 < ci"
  shows "returns (SNDiscriminator_forward rt (SNDiscriminator ci) x)
           (\<lambda>y. dims y = (n, 1, (h + 15) div 16, (w + 15) div 16)
               \<and> (\<exists>t. elem y = kernel rt [4, 0] t))"
proof -
  define h1 w1 where "h1 = (h + 1) div 2" and "w1 = (w + 1) div 2"
  define h2 w2 where "h2 = (h1 + 1) div 2" and "w2 = (w1 + 1) div 2"
  define h3 w3 where "h3 = (h2 + 1) div 2" and "w3 = (w2 + 1) div 2"
  define h4 w4 where "h4 = (h3 + 1) div 2" and "w4 = (w3 + 1) div 2"
  have e: "(h + 15) div 16 = h4" "(w + 15) div 16 = w4"
    unfolding h4_def w4_def h3_def w3_def h2_def w2_def h1_def w1_def by (simp_all only: half4)
  have p1: "0 < h1" "0 < w1" unfolding h1_def w1_def using pos by (simp_all only: half_pos)
  have p2: "0 < h2" "0 < w2" unfolding h2_def w2_def using p1 by (simp_all only: half_pos)
  have p3: "0 < h3" "0 < w3" unfolding h3_def w3_def using p2 by (simp_all only: half_pos)
  have p4: "0 < h4" "0 < w4" unfolding h4_def w4_def using p3 by (simp_all only: half_pos)
  have s1: "returns (forward (sub 0 rt) (Sequential [SpectralNorm (Conv2d ci 64 3 2 1 1), LeakyReLU]) x)
              (\<lambda>y. dims y = (n, 64, h1, w1))"
    unfolding h1_def w1_def by (rule returns_sn_stage [OF x pos]) (use cpos in simp_all)
  have s2: "returns (forward (sub 1 rt) (Sequential [SpectralNorm (Conv2d 64 128 3 2 1 1), LeakyReLU]) y)
              (\<lambda>y. dims y = (n, 128, h2, w2))" if "dims y = (n, 64, h1, w1)" for y
    unfolding h2_def w2_def by (rule returns_sn_stage [OF that p1]) simp_all
  have s3: "returns (forward (sub 2 rt) (Sequential [SpectralNorm (Conv2d 128 256 3 2 1 1), LeakyReLU]) y)
              (\<lambda>y. dims y = (n, 256, h3, w3))" if "dims y = (n, 128, h2, w2)" for y
    unfolding h3_def w3_def by (rule returns_sn_stage [OF that p2]) simp_all
  have s4: "returns (forward (sub 3 rt) (Sequential [SpectralNorm (Conv2d 256 512 3 2 1 1), LeakyReLU]) y)
              (\<lambda>y. dims y = (n, 512, h4, w4))" if "dims y = (n, 256, h3, w3)" for y
    unfolding h4_def w4_def by (rule returns_sn_stage [OF that p3]) simp_all
  have s5: "returns (forward (sub 4 rt) (Sequential [Conv2d 512 1 3 1 1 1]) y)
              (\<lambda>y. dims y = (n, 1, h4, w4) \<and> (\<exists>t. elem y = kernel rt [4, 0] t))"
    if "dims y = (n, 512, h4, w4)" for y
    by (rule returns_weaken [OF returns_sn_last [OF that p4]]) auto
  show ?thesis
    unfolding SNDiscriminator_forward_def SNDiscriminator_def SNDiscriminator.select_convs e
    apply (rule returns_bind [OF s1])
    apply (rule returns_bind [OF s2], assumption)
    apply (rule returns_bind [OF s3], assumption)
    apply (rule returns_bind [OF s4], assumption)
    apply (rule s5, assumption)
    done
qed

lemma DecoderNet_features:
  assumes "DecoderNet_forward rt m x fuse True = Some (OutFeatures out fs)"
  shows "\<exists>g1 g2 g3 x1 x2 x3. fs = [g1, g2, g3]
           \<and> forward (sub 0 rt) (d_conv1 m) x1 = Some g1
           \<and> forward (sub 2 rt) (d_conv2 m) x2 = Some g2
           \<and> forward (sub 4 rt) (d_conv3 m) x3 = Some g3"
  using assms unfolding DecoderNet_forward_def Let_def
  by (auto split: bind_splits)

lemma BackgroundInpaintingNet_features:
  assumes "BackgroundInpaintingNet_forward rt m x = Some (bg, fs)"
  shows "\<exists>g1 g2 g3 x1 x2 x3. fs = [g1, g2, g3]
           \<and> forward (sub 0 (sub 2 rt)) (d_conv1 (b_decoder m)) x1 = Some g1
           \<and> forward (sub 2 (sub 2 rt)) (d_conv2 (b_decoder m)) x2 = Some g2
           \<and> forward (sub 4 (sub 2 rt)) (d_conv3 (b_decoder m)) x3 = Some g3"
  using assms unfolding BackgroundInpaintingNet_forward_def
  by (auto split: option.splits result.splits bind_splits dest!: DecoderNet_features)

section \<open>The claims\<close>

text \<open>
  Claim C1, as stated: every element of the mask lies in [0, 1] and every element of the
  background and of the final image in [-1, 1], for every pair of input images. It fails
  on images that hold NaN: floating-point arithmetic carries NaN through every layer,
  the sigmoid and the hyperbolic tangent included, so the four outputs hold NaN, which
  lies in no interval.
\<close>

theorem Generator_forward_on_NaN:
  "Generator_forward (nan_runtime True) (Generator 3)
      (full (1, 3, 256, 256) NaN, full (1, 3, 256, 256) NaN)
     = Some (full (1, 1, 256, 256) NaN, full (1, 3, 256, 256) NaN,
             full (1, 3, 256, 256) NaN, full (1, 3, 256, 256) NaN)
   \<and> \<not> bounded 0 1 (full (1, 1, 256, 256) NaN)
   \<and> \<not> bounded (- 1) 1 (full (1, 3, 256, 256) NaN)"
  by (simp add: Generator_forward_def Generator_def TextConversionNet_forward_def
      TextConversionNet_def encoder_resnet_def decoder_head_def FusionNet_forward_def
      FusionNet_def BackgroundInpaintingNet_forward_def BackgroundInpaintingNet_def
      EncoderNet_forward_def EncoderNet_def ResNet_forward_def ResNet_def
      Residual_forward_def Residual_def DecoderNet_forward_def DecoderNet_def Let_def
      learned_def conv_shape_def deconv_shape_def conv_out_def deconv_out_def bn_shape_def
      bn_ok_def pointwise_def full_def nan_runtime_def sub_def cat1_def add_def bdim_def
      bidx_def cat_skip_def conv_bn_relu_def bounded_def)

text \<open>
  Claim C1, amended. On two images of shape (N, 3, 256, 256), \<^verbatim>\<open>Generator.forward\<close>
  returns four tensors (mask, stylized text, background, final image) of height and width
  256 with 1, 3, 3 and 3 channels; every element of the mask is NaN or lies in [0, 1],
  and every element of the background and of the final image (and of the stylized text)
  is NaN or lies in [-1, 1]. This holds in training and in evaluation mode and whatever
  the learned layers compute.
\<close>

theorem Generator_forward_256:
  assumes "dims text_image = (N, 3, 256, 256)" and "dims style_image = (N, 3, 256, 256)"
  shows "\<exists>mask stylized_text background final_image.
           Generator_forward rt (Generator 3) (text_image, style_image)
             = Some (mask, stylized_text, background, final_image)
         \<and> dims mask = (N, 1, 256, 256)
         \<and> dims stylized_text = (N, 3, 256, 256)
         \<and> dims background = (N, 3, 256, 256)
         \<and> dims final_image = (N, 3, 256, 256)
         \<and> nan_or_bounded 0 1 mask
         \<and> nan_or_bounded (- 1) 1 stylized_text
         \<and> nan_or_bounded (- 1) 1 background
         \<and> nan_or_bounded (- 1) 1 final_image"
proof -
  have t: "dims text_image = (N, 3, 8 * 32, 8 * 32)" using assms(1) by simp
  have s: "dims style_image = (N, 3, 8 * 32, 8 * 32)" using assms(2) by simp
  have "bn_ok (training rt) N 32 32" by (simp add: bn_ok_even)
  from returns_Generator [OF t s _ _ this] show ?thesis
    by (auto simp: returns_iff)
qed

theorem Generator_forward_256_witness:
  "dims (zeros (1, 3, 256, 256)) = (1, 3, 256, 256)
   \<and> (\<exists>mask stylized_text background final_image.
           Generator_forward (const_runtime True 0) (Generator 3)
             (zeros (1, 3, 256, 256), zeros (1, 3, 256, 256))
             = Some (mask, stylized_text, background, final_image)
         \<and> dims mask = (1, 1, 256, 256)
         \<and> dims stylized_text = (1, 3, 256, 256)
         \<and> dims background = (1, 3, 256, 256)
         \<and> dims final_image = (1, 3, 256, 256)
         \<and> nan_or_bounded 0 1 mask
         \<and> nan_or_bounded (- 1) 1 stylized_text
         \<and> nan_or_bounded (- 1) 1 background
         \<and> nan_or_bounded (- 1) 1 final_image)"
  using Generator_forward_256 [of "zeros (1, 3, 256, 256)" 1 "zeros (1, 3, 256, 256)"
      "const_runtime True 0"]
  by (simp add: zeros_def full_def)

text \<open>
  Claim C2, as stated: every image with height and width divisible by 8 goes through
  \<^verbatim>\<open>EncoderNet\<close> and then \<^verbatim>\<open>DecoderNet\<close>. It fails on a single 8x8 image in training
  mode (the mode of a freshly constructed module): the last encoder stage produces a 1x1
  map, and batch normalisation raises on one value per channel.
\<close>

theorem EncoderNet_raises_on_single_8x8:
  "EncoderNet_forward (const_runtime True 0) (EncoderNet 3) (zeros (1, 3, 8, 8)) False = None"
  by (simp add: EncoderNet_forward_def EncoderNet_def conv_bn_relu_def learned_def
      conv_shape_def conv_out_def bn_shape_def bn_ok_def pointwise_def zeros_def full_def
      const_runtime_def sub_def)

text \<open>
  Claim C2, amended. For an image of shape (N, C, H, W) with C, H and W positive and H
  and W divisible by 8, \<^verbatim>\<open>EncoderNet(C)\<close> returns a map that \<^verbatim>\<open>DecoderNet(256)\<close>,
  without skip features, turns into an output of height H and width W, provided that a
  module in training mode gets more than one value per channel at the coarsest scale
  (N * (H / 8) * (W / 8) is not 1).
\<close>

theorem Encoder_Decoder_round_trip:
  assumes "dims x = (N, C, H, W)" and "0 < C" and "0 < H" and "0 < W"
    and "8 dvd H" and "8 dvd W"
    and "bn_ok (training rt) N (H div 8) (W div 8)"
    and "bn_ok (training rt') N (H div 8) (W div 8)"
  shows "\<exists>y z. EncoderNet_forward rt (EncoderNet C) x False = Some (Out y)
           \<and> DecoderNet_forward rt' (DecoderNet 256 None) y None False = Some (Out z)
           \<and> height z = H \<and> width z = W"
proof -
  obtain h w where hw: "H = 8 * h" "W = 8 * w" using assms(5,6) unfolding dvd_def by blast
  have pos: "0 < h" "0 < w" using assms(3,4) hw by simp_all
  have bn: "bn_ok (training rt) N h w" "bn_ok (training rt') N h w"
    using assms(7,8) hw by simp_all
  have x: "dims x = (N, C, 8 * h, 8 * w)" using assms(1) hw by simp
  obtain y where y: "EncoderNet_forward rt (EncoderNet C) x False = Some (Out y)"
    and dy: "dims y = (N, 256, h, w)"
    using returns_EncoderNet [OF x pos bn(1) assms(2), of False] by (auto simp: returns_iff)
  have c: "(0::nat) < 256" by simp
  have "returns (DecoderNet_forward rt' (DecoderNet 256 (Some (0, 0, 0))) y None False)
          (\<lambda>r. \<exists>out g1 g2 g3. r = (if False then OutFeatures out [g1, g2, g3] else Out out)
                  \<and> dims out = (N, 32, 8 * h, 8 * w)
                  \<and> dims g1 = (N, 256, h, w)
                  \<and> dims g2 = (N, 128, 2 * h, 2 * w)
                  \<and> dims g3 = (N, 64, 4 * h, 4 * w))"
    by (rule returns_DecoderNet [OF dy pos bn(2) c]; rule returns_cat_skip_None; assumption)
  then obtain z where "DecoderNet_forward rt' (DecoderNet 256 None) y None False = Some (Out z)"
    and "dims z = (N, 32, 8 * h, 8 * w)"
    by (auto simp: returns_iff DecoderNet_None)
  with y hw show ?thesis by (auto simp: height_def width_def)
qed

theorem Encoder_Decoder_round_trip_witness:
  "dims (zeros (1, 3, 8, 8)) = (1, 3, 8, 8) \<and> (0::nat) < 3 \<and> (0::nat) < 8 \<and> (8::nat) dvd 8
   \<and> bn_ok (training (const_runtime False 0)) 1 (8 div 8) (8 div 8)
   \<and> (\<exists>y z. EncoderNet_forward (const_runtime False 0) (EncoderNet 3) (zeros (1, 3, 8, 8)) False
               = Some (Out y)
           \<and> DecoderNet_forward (const_runtime False 0) (DecoderNet 256 None) y None False
               = Some (Out z)
           \<and> height z = 8 \<and> width z = 8)"
  using Encoder_Decoder_round_trip [of "zeros (1, 3, 8, 8)" 1 3 8 8 "const_runtime False 0"
      "const_runtime False 0"]
  by (simp add: zeros_def full_def bn_ok_def const_runtime_def)

text \<open>
  Claim C3. On an input of shape (N, 3, 256, 256), \<^verbatim>\<open>EncoderNet(3).forward\<close> with
  \<^verbatim>\<open>get_feature_map=True\<close> returns a map of shape (N, 256, 32, 32) and a list of exactly
  two skip maps, of shapes (N, 128, 64, 64) and (N, 64, 128, 128) in this order.
\<close>

theorem EncoderNet_forward_256:
  assumes "dims x = (N, 3, 256, 256)"
  shows "\<exists>out f2 f1. EncoderNet_forward rt (EncoderNet 3) x True = Some (OutFeatures out [f2, f1])
           \<and> dims out = (N, 256, 32, 32)
           \<and> dims f2 = (N, 128, 64, 64)
           \<and> dims f1 = (N, 64, 128, 128)"
proof -
  have "dims x = (N, 3, 8 * 32, 8 * 32)" using assms by simp
  from returns_EncoderNet [OF this, of rt True] show ?thesis
    by (auto simp: bn_ok_even returns_iff)
qed

theorem EncoderNet_forward_256_witness:
  "dims (zeros (1, 3, 256, 256)) = (1, 3, 256, 256)
   \<and> (\<exists>out f2 f1. EncoderNet_forward (const_runtime True 0) (EncoderNet 3)
                      (zeros (1, 3, 256, 256)) True = Some (OutFeatures out [f2, f1])
           \<and> dims out = (1, 256, 32, 32)
           \<and> dims f2 = (1, 128, 64, 64)
           \<and> dims f1 = (1, 64, 128, 128))"
  using EncoderNet_forward_256 [of "zeros (1, 3, 256, 256)" 1 "const_runtime True 0"]
  by (simp add: zeros_def full_def)

text \<open>
  Claim C4, as stated: the output height and width of \<^verbatim>\<open>Discriminator.forward\<close> are the
  input's divided by 16, and every value lies in [0, 1], for every input image. It fails
  on a batch of two 8x8 images (a size the data model allows): the output is 1x1, and 1
  is not 8 / 16. The range fails on images that hold NaN, which the sigmoid returns as
  NaN.
\<close>

theorem Discriminator_on_8x8:
  "map_option dims (Discriminator_forward (const_runtime False 0) (Discriminator 6)
                      (zeros (2, 6, 8, 8))) = Some (2, 1, 1, 1)
   \<and> (1::nat) \<noteq> 8 div 16 \<and> (1::nat) * 16 \<noteq> 8
   \<and> Discriminator_forward (nan_runtime False) (Discriminator 6) (full (2, 6, 16, 16) NaN)
       = Some (full (2, 1, 1, 1) NaN)
   \<and> \<not> bounded 0 1 (full (2, 1, 1, 1) NaN)"
  by (simp add: Discriminator_forward_def Discriminator_def learned_def
      conv_shape_def conv_out_def bn_shape_def bn_ok_def pointwise_def zeros_def full_def
      const_runtime_def nan_runtime_def sub_def bounded_def)

text \<open>
  Claim C4, amended. For every input of shape (N, 6, H, W) with H and W positive,
  \<^verbatim>\<open>Discriminator.forward\<close> returns a single-channel map whose height and width are the
  input's divided by 16 and rounded up (exactly H / 16 and W / 16 when 16 divides them),
  with every value NaN or in [0, 1], provided that in training mode this map holds more
  than one value (N * \<lceil>H / 16\<rceil> * \<lceil>W / 16\<rceil> is not 1). On the same input
  \<^verbatim>\<open>SNDiscriminator.forward\<close> returns a map of the same shape; its values are the raw
  output of the last convolution, so that they are not confined to a fixed interval: when
  the parameters of that convolution make it compute the constant \<open>v\<close> (zero weights,
  bias \<open>v\<close>), every value of the output is \<open>v\<close>, for any \<open>v\<close>.
\<close>

theorem Discriminator_output:
  assumes "dims x = (N, 6, H, W)" and "0 < H" and "0 < W"
    and "bn_ok (training rt) N ((H + 15) div 16) ((W + 15) div 16)"
  shows "(\<exists>y. Discriminator_forward rt (Discriminator 6) x = Some y
             \<and> dims y = (N, 1, (H + 15) div 16, (W + 15) div 16) \<and> nan_or_bounded 0 1 y)
       \<and> (\<exists>z. SNDiscriminator_forward rt' (SNDiscriminator 6) x = Some z
             \<and> dims z = (N, 1, (H + 15) div 16, (W + 15) div 16))
       \<and> (\<forall>v. \<exists>z. SNDiscriminator_forward (with_kernel rt' [4, 0] (\<lambda>t n c i j. v))
                      (SNDiscriminator 6) x = Some z
             \<and> (\<forall>n c i j. elem z n c i j = v))"
proof -
  have c: "(0::nat) < 6" by simp
  have d: "\<exists>y. Discriminator_forward rt (Discriminator 6) x = Some y
             \<and> dims y = (N, 1, (H + 15) div 16, (W + 15) div 16) \<and> nan_or_bounded 0 1 y"
    using returns_Discriminator [OF assms c] by (simp add: returns_iff)
  have s: "\<exists>z. SNDiscriminator_forward rt' (SNDiscriminator 6) x = Some z
             \<and> dims z = (N, 1, (H + 15) div 16, (W + 15) div 16)"
    using returns_SNDiscriminator [OF assms(1-3) c, of rt'] by (auto simp: returns_iff)
  have u: "\<exists>z. SNDiscriminator_forward (with_kernel rt' [4, 0] (\<lambda>t n c i j. v))
                  (SNDiscriminator 6) x = Some z \<and> (\<forall>n c i j. elem z n c i j = v)" for v
    using returns_SNDiscriminator [OF assms(1-3) c, of "with_kernel rt' [4, 0] (\<lambda>t n c i j. v)"]
    by (auto simp: returns_iff with_kernel_def)
  from d s u show ?thesis by blast
qed

theorem Discriminator_output_witness:
  "dims (zeros (2, 6, 8, 8)) = (2, 6, 8, 8) \<and> (0::nat) < 8
   \<and> bn_ok (training (const_runtime True 0)) 2 ((8 + 15) div 16) ((8 + 15) div 16)
   \<and> (\<exists>y. Discriminator_forward (const_runtime True 0) (Discriminator 6) (zeros (2, 6, 8, 8)) = Some y
         \<and> dims y = (2, 1, 1, 1) \<and> nan_or_bounded 0 1 y)
   \<and> (\<exists>z. SNDiscriminator_forward (const_runtime True 0) (SNDiscriminator 6) (zeros (2, 6, 8, 8)) = Some z
         \<and> dims z = (2, 1, 1, 1))
   \<and> (\<exists>z. SNDiscriminator_forward (with_kernel (const_runtime True 0) [4, 0] (\<lambda>t n c i j. Fin 2))
              (SNDiscriminator 6) (zeros (2, 6, 8, 8)) = Some z
         \<and> (\<forall>n c i j. elem z n c i j = Fin 2))"
proof -
  have h: "dims (zeros (2, 6, 8, 8)) = (2, 6, 8, 8)" "(0::nat) < 8"
    "bn_ok (training (const_runtime True 0)) 2 ((8 + 15) div 16) ((8 + 15) div 16)"
    by (simp_all add: zeros_def full_def bn_ok_def)
  from Discriminator_output [OF h(1) h(2) h(2) h(3), of "const_runtime True 0"] h
  show ?thesis by simp
qed

text \<open>
  Claim C5. \<^verbatim>\<open>DiscriminatorMixed.forward((x1, x2))\<close> returns the pair of what its two
  discriminators return on their own: the first member is the result of \<open>D1\<close> on \<open>x1\<close>,
  the second the result of \<open>D2\<close> on \<open>x2\<close>, each with the parameters the sub-module holds
  (children 0 and 1 of the wrapper); the call raises exactly when one of the two does.
\<close>

theorem DiscriminatorMixed_forward_independent:
  "DiscriminatorMixed_forward rt m (x1, x2) =
     (case (Discriminator_forward (sub 0 rt) (D1 m) x1,
            Discriminator_forward (sub 1 rt) (D2 m) x2) of
        (Some o1, Some o2) \<Rightarrow> Some (o1, o2)
      | _ \<Rightarrow> None)"
  by (simp add: DiscriminatorMixed_forward_def split: option.splits)

text \<open>
  Claim C6, as stated: every input with a channel count divisible by 4 keeps its shape
  through \<^verbatim>\<open>Residual.forward\<close>. It fails on an input of shape (1, 4, 1, 1) in training
  mode: the batch normalisation after the shortcut raises on one value per channel.
\<close>

theorem Residual_raises_on_single_1x1:
  "Residual_forward (const_runtime True 0) (Residual 4) (zeros (1, 4, 1, 1)) = None"
  by (simp add: Residual_forward_def Residual_def learned_def add_def bdim_def
      conv_shape_def conv_out_def bn_shape_def bn_ok_def pointwise_def zeros_def full_def
      const_runtime_def sub_def)

text \<open>
  Claim C6, amended. For an input of shape (N, C, H, W) with C positive and divisible by
  4 and H and W positive, \<^verbatim>\<open>Residual(C).forward\<close> returns a tensor of the same shape,
  and so does the four-unit \<^verbatim>\<open>ResNet(C)\<close>, provided that a module in training mode gets
  more than one value per channel (N * H * W is not 1). Without channels (C = 0, which 4
  divides) the first convolution has an empty weight and raises.
\<close>

theorem Residual_keeps_shape:
  assumes "dims x = (N, C, H, W)" and "4 dvd C" and "0 < C" and "0 < H" and "0 < W"
    and "bn_ok (training rt) N H W" and "bn_ok (training rt') N H W"
  shows "(\<exists>y. Residual_forward rt (Residual C) x = Some y \<and> dims y = dims x)
       \<and> (\<exists>z. ResNet_forward rt' (ResNet C) x = Some z \<and> dims z = dims x)"
proof -
  have c: "4 \<le> C" using assms(2,3) by (auto elim: dvdE)
  show ?thesis
    using returns_Residual [OF assms(1,4,5,6) c] returns_ResNet [OF assms(1,4,5,7) c] assms(1)
    by (auto simp: returns_iff)
qed

theorem Residual_keeps_shape_witness:
  "dims (zeros (2, 4, 1, 1)) = (2, 4, 1, 1) \<and> (4::nat) dvd 4 \<and> (0::nat) < 4 \<and> (0::nat) < 1
   \<and> bn_ok (training (const_runtime True 0)) 2 1 1
   \<and> (\<exists>y. Residual_forward (const_runtime True 0) (Residual 4) (zeros (2, 4, 1, 1)) = Some y
           \<and> dims y = dims (zeros (2, 4, 1, 1)))
   \<and> (\<exists>z. ResNet_forward (const_runtime True 0) (ResNet 4) (zeros (2, 4, 1, 1)) = Some z
           \<and> dims z = dims (zeros (2, 4, 1, 1)))"
  using Residual_keeps_shape [of "zeros (2, 4, 1, 1)" 2 4 1 1 "const_runtime True 0"
      "const_runtime True 0"]
  by (simp add: zeros_def full_def bn_ok_def const_runtime_def)

text \<open>
  Claim C7, as stated: in the convolution path of \<^verbatim>\<open>Residual\<close> the leaky rectification
  stands between the first two convolutions and nowhere else before the shortcut. The path
  that \<^verbatim>\<open>__init__\<close> builds differs from it: its member 3, between the 3x3 convolution and
  the last 1x1 convolution, is a second \<^verbatim>\<open>LeakyReLU\<close>.
\<close>

theorem Residual_conv_differs_from_spec:
  "r_conv (Residual 4) \<noteq> Residual_conv_spec 4
   \<and> children (r_conv (Residual 4)) ! 3 = LeakyReLU
   \<and> children (Residual_conv_spec 4) ! 3 = Conv2d 1 4 1 1 0 1"
  by (simp add: Residual_def Residual_conv_spec_def)

text \<open>
  Claim C7, amended. The convolution path of \<^verbatim>\<open>Residual(C)\<close> is a 1x1 convolution from C
  to C / 4 channels, a leaky rectification, a 3x3 convolution (padding 1) at C / 4, a
  second leaky rectification, and a 1x1 convolution back to C. On an input that the unit
  accepts (at least 4 channels, so that C / 4 is positive, positive height and width, more
  than one value per channel when training), \<^verbatim>\<open>forward\<close> computes exactly this chain,
  adds the input to its result, normalises the sum with \<^verbatim>\<open>BatchNorm2d(C)\<close> and applies
  a leaky rectification.
\<close>

theorem Residual_forward_computation:
  assumes "dims x = (N, C, H, W)" and "4 \<le> C" and "0 < H" and "0 < W"
    and "bn_ok (training rt) N H W"
  shows "children (r_conv (Residual C))
           = [Conv2d C (C div 4) 1 1 0 1, LeakyReLU,
              Conv2d (C div 4) (C div 4) 3 1 1 1, LeakyReLU,
              Conv2d (C div 4) C 1 1 0 1]
       \<and> r_bn (Residual C) = BatchNorm2d C
       \<and> (let a = \<lparr>dims = (N, C div 4, H, W), elem = kernel rt [0, 0] x\<rparr>;
              b = \<lparr>dims = (N, C div 4, H, W), elem = kernel rt [0, 2] (pointwise leaky_relu a)\<rparr>;
              c = \<lparr>dims = (N, C, H, W), elem = kernel rt [0, 4] (pointwise leaky_relu b)\<rparr>
          in \<exists>s. add c x = Some s \<and> dims s = (N, C, H, W)
               \<and> Residual_forward rt (Residual C) x
                   = Some (pointwise leaky_relu \<lparr>dims = (N, C, H, W), elem = kernel rt [1] s\<rparr>))"
proof -
  have p: "[0, 2] = [0, Suc (Suc 0)]" "[0, 4] = [0, Suc (Suc (Suc (Suc 0)))]" "[1] = [Suc 0]"
    by simp_all
  have q: "0 < C div 4" "0 < C" using assms(2) by (simp_all add: div_greater_zero_iff)
  show ?thesis
    using assms q unfolding p
    by (simp add: Residual_forward_def Residual_def Let_def learned_def conv_shape_def
        conv_out_def bn_shape_def add_def bdim_def pointwise_def)
qed

theorem Residual_forward_computation_witness:
  "dims (zeros (2, 8, 3, 3)) = (2, 8, 3, 3) \<and> (4::nat) \<le> 8 \<and> (0::nat) < 3
   \<and> bn_ok (training (const_runtime True 0)) 2 3 3
   \<and> children (r_conv (Residual 8))
        = [Conv2d 8 2 1 1 0 1, LeakyReLU, Conv2d 2 2 3 1 1 1, LeakyReLU, Conv2d 2 8 1 1 0 1]
   \<and> (\<exists>y. Residual_forward (const_runtime True 0) (Residual 8) (zeros (2, 8, 3, 3)) = Some y)"
proof -
  have h: "dims (zeros (2, 8, 3, 3)) = (2, 8, 3, 3)" "(4::nat) \<le> 8" "(0::nat) < 3"
    "bn_ok (training (const_runtime True 0)) 2 3 3"
    by (simp_all add: zeros_def full_def bn_ok_def)
  from Residual_forward_computation [OF h(1) h(2) h(3) h(3) h(4)] h
  show ?thesis by (auto simp: Let_def)
qed

text \<open>
  Claim C8, as stated: five stride-2 stages, with normalisation at the first four only.
  The fifth stage of \<^verbatim>\<open>Discriminator\<close> differs on both counts: its convolution has
  stride 1, and it contains a \<^verbatim>\<open>BatchNorm2d\<close>.
\<close>

theorem Discriminator_fifth_stage:
  "conv_stride (hd (children (conv5 (Discriminator 6)))) \<noteq> Some 2
   \<and> list_ex is_norm (children (conv5 (Discriminator 6)))"
  by (simp add: Discriminator_def)

text \<open>
  Claim C8, amended. \<^verbatim>\<open>Discriminator\<close> is a stack of five stages, each a 3x3 convolution
  followed by a batch normalisation and an activation; the convolutions have the channel
  schedule in_dim, 64, 128, 256, 512, 1; the first four have stride 2 and the fifth
  stride 1; the activation is a leaky rectification in the first four stages and a sigmoid
  in the fifth, which yields the single-channel probability map.
\<close>

theorem Discriminator_structure:
  "map (conv_channels \<circ> hd \<circ> children) (stages (Discriminator in_dim))
     = [Some (in_dim, 64), Some (64, 128), Some (128, 256), Some (256, 512), Some (512, 1)]
   \<and> map (conv_stride \<circ> hd \<circ> children) (stages (Discriminator in_dim))
     = [Some 2, Some 2, Some 2, Some 2, Some 1]
   \<and> map (\<lambda>s. children s ! 1) (stages (Discriminator in_dim))
     = [BatchNorm2d 64, BatchNorm2d 128, BatchNorm2d 256, BatchNorm2d 512, BatchNorm2d 1]
   \<and> map (\<lambda>s. children s ! 2) (stages (Discriminator in_dim))
     = [LeakyReLU, LeakyReLU, LeakyReLU, LeakyReLU, Sigmoid]
   \<and> map (length \<circ> children) (stages (Discriminator in_dim)) = [3, 3, 3, 3, 3]"
  by (simp add: Discriminator_def stages_def)

text \<open>
  Claim C9, as stated: for every valid style image, \<^verbatim>\<open>BackgroundInpaintingNet.forward\<close>
  returns a tanh-activated background and three feature maps. The specification calls an
  image valid when its height and width are divisible by 8. On a single 8x8 image in
  training mode nothing is returned: the encoder reaches a 1x1 map and batch normalisation
  raises on one value per channel. On images that hold NaN the background holds NaN,
  which the hyperbolic tangent does not bring into [-1, 1].
\<close>

theorem BackgroundInpaintingNet_raises_on_single_8x8:
  "BackgroundInpaintingNet_forward (const_runtime True 0) (BackgroundInpaintingNet 3)
      (zeros (1, 3, 8, 8)) = None
   \<and> BackgroundInpaintingNet_forward (nan_runtime False) (BackgroundInpaintingNet 3)
        (full (2, 3, 8, 8) NaN)
       = Some (full (2, 3, 8, 8) NaN,
               [full (2, 256, 1, 1) NaN, full (2, 128, 2, 2) NaN, full (2, 64, 4, 4) NaN])
   \<and> \<not> bounded (- 1) 1 (full (2, 3, 8, 8) NaN)"
  by (simp add: BackgroundInpaintingNet_forward_def BackgroundInpaintingNet_def
      EncoderNet_forward_def EncoderNet_def ResNet_forward_def ResNet_def
      Residual_forward_def Residual_def DecoderNet_forward_def DecoderNet_def Let_def
      learned_def conv_shape_def deconv_shape_def conv_out_def deconv_out_def bn_shape_def
      bn_ok_def pointwise_def zeros_def full_def const_runtime_def nan_runtime_def sub_def
      cat1_def add_def bdim_def bidx_def cat_skip_def conv_bn_relu_def bounded_def)

text \<open>
  Claim C9, amended. On a style image of shape (N, 3, H, W) with H and W positive
  multiples of 8 that, when the module is in training mode, brings more than one value
  per channel to the coarsest scale (N * (H / 8) * (W / 8) is not 1),
  \<^verbatim>\<open>BackgroundInpaintingNet.forward\<close> returns a 3-channel background whose values are
  NaN or in [-1, 1] and a list of exactly three feature maps of 256, 128 and 64 channels,
  in this order: the outputs of the blocks \<^verbatim>\<open>conv1\<close>, \<^verbatim>\<open>conv2\<close> and \<^verbatim>\<open>conv3\<close> of its
  decoder. The decoder of \<^verbatim>\<open>FusionNet\<close> is built for skips of these widths: the first
  convolutions of its three stages take 256 + 256, 128 + 128 and 64 + 64 channels. So
  \<^verbatim>\<open>FusionNet.forward\<close>, called as \<^verbatim>\<open>Generator\<close> calls it with the returned list on
  an image of the same shape, does not raise and returns a 3-channel image of that size.
\<close>

theorem BackgroundInpaintingNet_feeds_FusionNet:
  assumes "dims style_image = (N, 3, 8 * h, 8 * w)"
    and "dims stylized_text = (N, 3, 8 * h, 8 * w)"
    and "0 < h" and "0 < w"
    and "bn_ok (training rt) N h w" and "bn_ok (training rt') N h w"
  shows "\<exists>background g1 g2 g3 final.
           BackgroundInpaintingNet_forward rt (BackgroundInpaintingNet 3) style_image
             = Some (background, [g1, g2, g3])
         \<and> dims background = (N, 3, 8 * h, 8 * w) \<and> nan_or_bounded (- 1) 1 background
         \<and> channels g1 = 256 \<and> channels g2 = 128 \<and> channels g3 = 64
         \<and> (\<exists>x1 x2 x3.
               forward (sub 0 (sub 2 rt)) (d_conv1 (b_decoder (BackgroundInpaintingNet 3))) x1
                 = Some g1
             \<and> forward (sub 2 (sub 2 rt)) (d_conv2 (b_decoder (BackgroundInpaintingNet 3))) x2
                 = Some g2
             \<and> forward (sub 4 (sub 2 rt)) (d_conv3 (b_decoder (BackgroundInpaintingNet 3))) x3
                 = Some g3)
         \<and> map (conv_channels \<circ> hd \<circ> children \<circ> hd \<circ> children)
               [d_conv1 (f_decoder (FusionNet 3)), d_conv2 (f_decoder (FusionNet 3)),
                d_conv3 (f_decoder (FusionNet 3))]
             = [Some (256 + 256, 256), Some (128 + 128, 128), Some (64 + 64, 64)]
         \<and> FusionNet_forward rt' (FusionNet 3) stylized_text (Some (map Some [g1, g2, g3]))
             = Some final
         \<and> dims final = (N, 3, 8 * h, 8 * w)"
proof -
  have ci: "(0::nat) < 3" by simp
  obtain background g1 g2 g3 where
    b: "BackgroundInpaintingNet_forward rt (BackgroundInpaintingNet 3) style_image
          = Some (background, [g1, g2, g3])"
    and db: "dims background = (N, 3, 8 * h, 8 * w)" "nan_or_bounded (- 1) 1 background"
    and g: "dims g1 = (N, 256, h, w)" "dims g2 = (N, 128, 2 * h, 2 * w)"
      "dims g3 = (N, 64, 4 * h, 4 * w)"
    using returns_BackgroundInpaintingNet [OF assms(1,3,4,5) ci] by (auto simp: returns_iff)
  have pr: "\<exists>x1 x2 x3.
               forward (sub 0 (sub 2 rt)) (d_conv1 (b_decoder (BackgroundInpaintingNet 3))) x1
                 = Some g1
             \<and> forward (sub 2 (sub 2 rt)) (d_conv2 (b_decoder (BackgroundInpaintingNet 3))) x2
                 = Some g2
             \<and> forward (sub 4 (sub 2 rt)) (d_conv3 (b_decoder (BackgroundInpaintingNet 3))) x3
                 = Some g3"
    using BackgroundInpaintingNet_features [OF b] by auto
  obtain final where
    f: "FusionNet_forward rt' (FusionNet 3) stylized_text (Some [Some g1, Some g2, Some g3])
          = Some final"
    and df: "dims final = (N, 3, 8 * h, 8 * w)"
    using returns_FusionNet [OF assms(2,3,4,6) g ci] by (auto simp: returns_iff)
  have c: "map (conv_channels \<circ> hd \<circ> children \<circ> hd \<circ> children)
               [d_conv1 (f_decoder (FusionNet 3)), d_conv2 (f_decoder (FusionNet 3)),
                d_conv3 (f_decoder (FusionNet 3))]
             = [Some (256 + 256, 256), Some (128 + 128, 128), Some (64 + 64, 64)]"
    by (simp add: FusionNet_def DecoderNet_def conv_bn_relu_def)
  have ch: "channels g1 = 256" "channels g2 = 128" "channels g3 = 64"
    using g by (simp_all add: channels_def)
  have f': "FusionNet_forward rt' (FusionNet 3) stylized_text (Some (map Some [g1, g2, g3]))
          = Some final" using f by simp
  show ?thesis
    by (rule exI [of _ background], rule exI [of _ g1], rule exI [of _ g2],
        rule exI [of _ g3], rule exI [of _ final])
      (intro conjI b db ch pr c f' df)
qed

theorem BackgroundInpaintingNet_feeds_FusionNet_witness:
  "dims (zeros (1, 3, 8 * 2, 8 * 2)) = (1, 3, 8 * 2, 8 * 2) \<and> (0::nat) < 2
   \<and> bn_ok (training (const_runtime True 0)) 1 2 2
   \<and> (\<exists>background g1 g2 g3 final.
           BackgroundInpaintingNet_forward (const_runtime True 0) (BackgroundInpaintingNet 3)
               (zeros (1, 3, 8 * 2, 8 * 2))
             = Some (background, [g1, g2, g3])
         \<and> dims background = (1, 3, 8 * 2, 8 * 2) \<and> nan_or_bounded (- 1) 1 background
         \<and> channels g1 = 256 \<and> channels g2 = 128 \<and> channels g3 = 64
         \<and> FusionNet_forward (const_runtime True 0) (FusionNet 3) (zeros (1, 3, 8 * 2, 8 * 2))
               (Some (map Some [g1, g2, g3]))
             = Some final
         \<and> dims final = (1, 3, 8 * 2, 8 * 2))"
proof -
  have h: "dims (zeros (1, 3, 8 * 2, 8 * 2)) = (1, 3, 8 * 2, 8 * 2)" "(0::nat) < 2"
    "bn_ok (training (const_runtime True 0)) 1 2 2"
    by (simp_all add: zeros_def full_def bn_ok_def)
  from BackgroundInpaintingNet_feeds_FusionNet [OF h(1) h(1) h(2) h(2) h(3) h(3)] h
  show ?thesis by auto
qed

text \<open>
  Claim C10. On any decoder, any input and either value of \<^verbatim>\<open>get_feature_map\<close>,
  \<^verbatim>\<open>DecoderNet.forward\<close> gives the same result (the same value, or a raise in each
  case) for \<^verbatim>\<open>fuse=None\<close>, for \<^verbatim>\<open>fuse=[None, None, None]\<close> and for \<^verbatim>\<open>fuse=[]\<close>.
\<close>

theorem DecoderNet_forward_no_skip:
  "DecoderNet_forward rt m x (Some [None, None, None]) g = DecoderNet_forward rt m x None g
   \<and> DecoderNet_forward rt m x (Some []) g = DecoderNet_forward rt m x None g"
  by (simp add: DecoderNet_forward_def cat_skip_def)

end
